theory Spec2Isabelle
  imports Main "HOL-Library.Word"
begin

unbundle bit_operations_syntax

section \<open>Machine types and the device's environment\<close>

text \<open>
  The firmware runs on a 32-bit Cortex-M: \<open>uint32_t\<close> is \<open>32 word\<close> (addition and
  subtraction wrap), a byte is \<open>8 word\<close>, and a pointer is a 32-bit address. An
  \<open>int32_t\<close> return value of a driver is kept as its 32-bit pattern, since the callers
  only compare it with 0 or (after the usual conversion) with an unsigned size. Small
  signed indices (\<open>regIndex\<close>, \<open>usbStrIn\<close>, \<open>bank\<close>) never leave a tiny range and
  are \<open>int\<close>.
\<close>

type_synonym u8 = "8 word"
type_synonym u32 = "32 word"

text \<open>
  What the sources use but do not define (C library, boot ROM, chip headers, link-time
  addresses) is collected in one record and handed to every function that needs it:
  \<^item> \<open>sprintf\<close>: the C library's formatter behind the \<open>DFUDEBUG\<close> macro, from a format
    string and its integer arguments to the formatted text;
  \<^item> \<open>iap_rom\<close>: the boot ROM's In-Application-Programming entry, from the command words
    and the memory to the status word \<open>result[0]\<close> and the new memory;
  \<^item> \<open>IAP_CMD_SUCCESS\<close>, \<open>SystemCoreClock\<close>, \<open>EEPROM_PAGE_SIZE\<close>, \<open>EEPROM_ADDRESS\<close>:
    constants and macros of the chip headers;
  \<^item> \<open>dfuIn_addr\<close>, \<open>dfuProgBuff_addr\<close>: where the linker put the two static buffers.
\<close>

record platform =
  sprintf :: "string \<Rightarrow> u32 list \<Rightarrow> string"
  iap_rom :: "u32 list \<Rightarrow> (u32 \<Rightarrow> u8) \<Rightarrow> u32 \<times> (u32 \<Rightarrow> u8)"
  IAP_CMD_SUCCESS :: u32
  SystemCoreClock :: u32
  EEPROM_PAGE_SIZE :: u32
  EEPROM_ADDRESS :: "u32 \<Rightarrow> u32 \<Rightarrow> u32"
  dfuIn_addr :: u32
  dfuProgBuff_addr :: u32

section \<open>Protocol types (dfuutil_programming_api.h)\<close>

datatype DFU_OPSTS_T =
    DFU_OPSTS_IDLE
  | DFU_OPSTS_ERRER
  | DFU_OPSTS_PROGER
  | DFU_OPSTS_READER
  | DFU_OPSTS_ERRUN
  | DFU_OPSTS_VERERR
  | DFU_OPSTS_READBUSY
  | DFU_OPSTS_READTRIG
  | DFU_OPSTS_READREADY
  | DFU_OPSTS_ERASE_ALL_ST
  | DFU_OPSTS_ERASE_ST
  | DFU_OPSTS_ERASE
  | DFU_OPSTS_PROG
  | DFU_OPSTS_PROG_RSVD
  | DFU_OPSTS_PROG_STREAM
  | DFU_OPSTS_RESET
  | DFU_OPSTS_EXEC
  | DFU_OPSTS_LOOP

text \<open>The host commands are the values 0..11 of \<open>DFU_HOSTCMD_T\<close>; the header field that
  carries them is a \<open>uint32_t\<close> the host may fill with anything.\<close>

definition DFU_HOSTCMD_READIDS :: u32 where "DFU_HOSTCMD_READIDS = 0"
definition DFU_HOSTCMD_SETDEBUG :: u32 where "DFU_HOSTCMD_SETDEBUG = 1"
definition DFU_HOSTCMD_PROGOTP :: u32 where "DFU_HOSTCMD_PROGOTP = 2"
definition DFU_HOSTCMD_READOTP :: u32 where "DFU_HOSTCMD_READOTP = 3"
definition DFU_HOSTCMD_STARTNEWSESS :: u32 where "DFU_HOSTCMD_STARTNEWSESS = 4"
definition DFU_HOSTCMD_STARTENCSESS :: u32 where "DFU_HOSTCMD_STARTENCSESS = 5"
definition DFU_HOSTCMD_ERASE_ALL :: u32 where "DFU_HOSTCMD_ERASE_ALL = 6"
definition DFU_HOSTCMD_ERASE_REGION :: u32 where "DFU_HOSTCMD_ERASE_REGION = 7"
definition DFU_HOSTCMD_PROGRAM :: u32 where "DFU_HOSTCMD_PROGRAM = 8"
definition DFU_HOSTCMD_READBACK :: u32 where "DFU_HOSTCMD_READBACK = 9"
definition DFU_HOSTCMD_RESET :: u32 where "DFU_HOSTCMD_RESET = 10"
definition DFU_HOSTCMD_EXECUTE :: u32 where "DFU_HOSTCMD_EXECUTE = 11"

text \<open>\<open>DFU_FROMHOST_PACKETHDR_T\<close>; the fields carry the prefix \<open>hdr_\<close> because the
  globals \<open>hostCmd\<close> and \<open>size\<close> are names of their own here.\<close>

record DFU_FROMHOST_PACKETHDR_T =
  hdr_hostCmd :: u32
  hdr_addr :: u32
  hdr_size :: u32
  hdr_magic :: u32

definition DFUPROG_VALIDVAL :: u32 where
  "DFUPROG_VALIDVAL = 0x18430000 OR 0x010B"

section \<open>The globals of the firmware\<close>

text \<open>
  The file-scope variables of \<open>dfuutil_programming_dfu_ops.c\<close>, plus the device's
  byte-addressed memory \<open>mem\<close> (staging buffer, flash, EEPROM, RAM) and, as a ghost
  field, the list \<open>iap_calls\<close> of the command blocks passed to the boot ROM so far.
  \<open>dfuIn\<close> is the header the firmware sees when it casts the buffer \<open>dfuIn\<close> to
  \<open>DFU_FROMHOST_PACKETHDR_T *\<close>. The pointer \<open>currRegionData\<close> is \<open>None\<close> while it is
  \<open>NULL\<close> and \<open>Some i\<close> when it points to \<open>regionList[i]\<close>. The bytes of the status packet built into \<open>dfuOut\<close> and copied
  to the USB stack's own buffer are not represented, only their count.
\<close>

record dfu_state =
  currStatus :: DFU_OPSTS_T
  hostCmd :: u32
  currCmdAddr :: u32
  currCmdSize :: u32
  currentRegion :: int
  buffer_size :: u32
  currRegionData :: "nat option"
  usbBuff :: "nat \<Rightarrow> char"
  usbStrIn :: int
  usbStrOut :: int
  verifyDebug :: bool
  dfuIn :: DFU_FROMHOST_PACKETHDR_T
  inPktSize :: u32
  inPktSizeIdx :: u32
  outPktSizeIdx :: u32
  progSize :: u32
  dfu_done_algo :: u32
  mem :: "u32 \<Rightarrow> u8"
  iap_calls :: "u32 list list"

section \<open>The debug message queue\<close>

definition USBMSGBUFFSIZE :: int where "USBMSGBUFFSIZE = 2048"


text \<open>\<open>usbDebug\<close>: the loop over the characters of the NUL-terminated text is the
  recursion over the string.\<close>

fun usbDebug_loop :: "string \<Rightarrow> dfu_state \<Rightarrow> dfu_state" where
  "usbDebug_loop [] s = s"
| "usbDebug_loop (c # tmp) s =
     usbDebug_loop tmp
       (s\<lparr>usbBuff := (usbBuff s)(nat (usbStrIn s) := c),
          usbStrIn := (if usbStrIn s + 1 \<ge> USBMSGBUFFSIZE then 0 else usbStrIn s + 1)\<rparr>)"

definition usbDebug :: "string \<Rightarrow> dfu_state \<Rightarrow> dfu_state" where
  "usbDebug tmp s = (if verifyDebug s = True then usbDebug_loop tmp s else s)"

text \<open>The macro \<open>DFUDEBUG(...)\<close>: \<open>sprintf\<close> into a local buffer, then \<open>usbDebug\<close>.\<close>

definition DFUDEBUG :: "platform \<Rightarrow> string \<Rightarrow> u32 list \<Rightarrow> dfu_state \<Rightarrow> dfu_state" where
  "DFUDEBUG E fmt args s = usbDebug (sprintf E fmt args) s"

text \<open>\<open>usbDebugFill\<close> returns the number of bytes handed out and the new state; its
  parameter \<open>max\<close> is \<open>maxlen\<close> here.\<close>

definition usbDebugFill :: "int \<Rightarrow> dfu_state \<Rightarrow> int \<times> dfu_state" where
  "usbDebugFill maxlen s =
     (if usbStrIn s \<noteq> usbStrOut s then
        (let ssize = (if usbStrOut s > usbStrIn s then USBMSGBUFFSIZE - usbStrOut s
                      else usbStrIn s - usbStrOut s);
             ssize = (if ssize > maxlen then maxlen else ssize);
             out = usbStrOut s + ssize
         in (ssize, s\<lparr>usbStrOut := (if out \<ge> USBMSGBUFFSIZE then 0 else out)\<rparr>))
      else (0, s))"

section \<open>The region registry (root dispatcher)\<close>

text \<open>
  \<open>PROGALGOS_T\<close>: a driver's function table. Each function takes the globals and
  returns them changed; \<open>void *buff\<close> is the buffer's address. The \<open>init\<close> entry is
  used only while the registry is built and is left out. The fields \<open>erase_region\<close>,
  \<open>erase_all\<close>, \<open>write\<close>, \<open>read\<close> and \<open>close\<close> carry the prefix \<open>algo_\<close>. A driver
  function returns \<open>None\<close> where the C code reads a table outside its bounds (undefined
  behaviour); every defined run returns \<open>Some\<close>.
\<close>

record PROGALGOS_T =
  algo_erase_region :: "u32 \<Rightarrow> u32 \<Rightarrow> dfu_state \<Rightarrow> (u32 \<times> dfu_state) option"
  algo_erase_all :: "u32 \<Rightarrow> u32 \<Rightarrow> dfu_state \<Rightarrow> (u32 \<times> dfu_state) option"
  algo_write :: "u32 \<Rightarrow> u32 \<Rightarrow> u32 \<Rightarrow> dfu_state \<Rightarrow> (u32 \<times> dfu_state) option"
  algo_read :: "u32 \<Rightarrow> u32 \<Rightarrow> u32 \<Rightarrow> dfu_state \<Rightarrow> (u32 \<times> dfu_state) option"
  algo_close :: "u32 \<Rightarrow> dfu_state \<Rightarrow> dfu_state option"

text \<open>
  \<open>DFUPROG_REGION_T\<close>. The driver table of a region is the record's last field, so
  that the lookup, which reads only addresses and sizes, also runs on the registry as a
  driver sees it from inside (\<open>DFUPROG_REGION_INFO\<close>, the same entries without the
  function pointers; a driver that held the full list would hold itself). The field
  \<open>buffer_size\<close> is \<open>region_buffer_size\<close> here.
\<close>

record DFUPROG_REGION_INFO =
  region_addr :: u32
  region_size :: u32
  regname :: string
  region_buffer_size :: u32

record DFUPROG_REGION_T = DFUPROG_REGION_INFO +
  pprogalgos :: PROGALGOS_T

text \<open>
  \<open>dfuRegionList\<close> is written once by \<open>algo_root_init\<close> and read-only afterwards. It is
  the list of its registered entries \<open>regionList[0 .. num_regions - 1]\<close>, in
  registration order, so that \<open>num_regions\<close> is the length of the list.
\<close>

type_synonym DFUPROG_REGIONLIST_T = "DFUPROG_REGION_T list"
type_synonym 'a region_list = "'a DFUPROG_REGION_INFO_scheme list"

text \<open>The \<open>while\<close> loop of \<open>algo_root_isRegionValid\<close>, with its two loop variables. A
  match stores the index and sets \<open>regIndex\<close> to \<open>num_regions\<close>; the increment that
  follows ends the loop.\<close>

function isRegionValid_loop ::
  "'a region_list \<Rightarrow> u32 \<Rightarrow> u32 \<Rightarrow> int \<Rightarrow> nat \<Rightarrow> int" where
  "isRegionValid_loop rl addr sz validIndex regIndex =
     (if regIndex < length rl then
        (if addr \<ge> region_addr (rl ! regIndex) \<and>
            addr + sz \<le> region_addr (rl ! regIndex) + region_size (rl ! regIndex)
         then isRegionValid_loop rl addr sz (int regIndex) (length rl + 1)
         else isRegionValid_loop rl addr sz validIndex (regIndex + 1))
      else validIndex)"
  by pat_completeness auto
termination
  by (relation "measure (\<lambda>(rl, addr, sz, validIndex, regIndex). length rl + 1 - regIndex)") auto

declare isRegionValid_loop.simps [simp del]

definition algo_root_isRegionValid ::
  "platform \<Rightarrow> 'a region_list \<Rightarrow> u32 \<Rightarrow> u32 \<Rightarrow> dfu_state \<Rightarrow> int \<times> dfu_state" where
  "algo_root_isRegionValid E rl addr sz s =
     (let validIndex = isRegionValid_loop rl addr sz (-1) 0
      in (validIndex,
          if validIndex < 0
          then DFUDEBUG E ''Op on invalid region address/size: %p/%p %d\<newline>''
                 [addr, sz, word_of_int validIndex] s
          else s))"

text \<open>The five root operations. \<open>algo_root_close\<close> returns a \<open>bool\<close>; the driver's
  \<open>close\<close> returns nothing.\<close>

definition algo_root_erase_region ::
  "platform \<Rightarrow> DFUPROG_REGIONLIST_T \<Rightarrow> u32 \<Rightarrow> u32 \<Rightarrow> dfu_state \<Rightarrow> (u32 \<times> dfu_state) option" where
  "algo_root_erase_region E rl addr sz s =
     (let (regIndex, s1) = algo_root_isRegionValid E rl addr sz s
      in if regIndex < 0
         then Some (0, DFUDEBUG E ''erase_region invalid: %p:%p\<newline>'' [addr, sz] s1)
         else algo_erase_region (pprogalgos (rl ! nat regIndex)) addr sz s1)"

definition algo_root_erase_all ::
  "platform \<Rightarrow> DFUPROG_REGIONLIST_T \<Rightarrow> u32 \<Rightarrow> dfu_state \<Rightarrow> (u32 \<times> dfu_state) option" where
  "algo_root_erase_all E rl addr s =
     (let (regIndex, s1) = algo_root_isRegionValid E rl addr 0 s
      in if regIndex < 0
         then Some (0, DFUDEBUG E ''eraseall_region invalid: %p %d\<newline>''
                         [addr, word_of_int regIndex] s1)
         else algo_erase_all (pprogalgos (rl ! nat regIndex))
                (region_addr (rl ! nat regIndex)) (region_size (rl ! nat regIndex)) s1)"

definition algo_root_write ::
  "platform \<Rightarrow> DFUPROG_REGIONLIST_T \<Rightarrow> u32 \<Rightarrow> u32 \<Rightarrow> u32 \<Rightarrow> dfu_state
     \<Rightarrow> (u32 \<times> dfu_state) option" where
  "algo_root_write E rl buff addr sz s =
     (let (regIndex, s1) = algo_root_isRegionValid E rl addr sz s
      in if regIndex < 0
         then Some (0, DFUDEBUG E ''write_region invalid: %p:%p\<newline>'' [addr, sz] s1)
         else algo_write (pprogalgos (rl ! nat regIndex)) buff addr sz s1)"

definition algo_root_read ::
  "platform \<Rightarrow> DFUPROG_REGIONLIST_T \<Rightarrow> u32 \<Rightarrow> u32 \<Rightarrow> u32 \<Rightarrow> dfu_state
     \<Rightarrow> (u32 \<times> dfu_state) option" where
  "algo_root_read E rl buff addr sz s =
     (let (regIndex, s1) = algo_root_isRegionValid E rl addr sz s
      in if regIndex < 0
         then Some (0, DFUDEBUG E ''read_region invalid: %p:%p\<newline>'' [addr, sz] s1)
         else algo_read (pprogalgos (rl ! nat regIndex)) buff addr sz s1)"

definition algo_root_close ::
  "platform \<Rightarrow> DFUPROG_REGIONLIST_T \<Rightarrow> u32 \<Rightarrow> dfu_state \<Rightarrow> (bool \<times> dfu_state) option" where
  "algo_root_close E rl addr s =
     (let (regIndex, s1) = algo_root_isRegionValid E rl addr 0 s
      in if regIndex < 0
         then Some (False, DFUDEBUG E ''close_region invalid: %p\<newline>'' [addr] s1)
         else (case algo_close (pprogalgos (rl ! nat regIndex)) addr s1 of
                 None \<Rightarrow> None
               | Some s2 \<Rightarrow> Some (True, s2)))"

section \<open>The internal flash driver\<close>

definition IAP_INIT :: u32 where "IAP_INIT = 49"
definition IAP_PREP_SECS :: u32 where "IAP_PREP_SECS = 50"
definition IAP_RAM_TO_FLASH :: u32 where "IAP_RAM_TO_FLASH = 51"
definition IAP_ERASE_SECS :: u32 where "IAP_ERASE_SECS = 52"
definition IAP_BLANK_CHECK_SECS :: u32 where "IAP_BLANK_CHECK_SECS = 53"
definition IAP_COMPARE :: u32 where "IAP_COMPARE = 56"

definition CPUCLOCKFRQINKHZ :: "platform \<Rightarrow> u32" where
  "CPUCLOCKFRQINKHZ E = SystemCoreClock E div 1000"

record SECTOR_INFO_T =
  sector_offset :: u32
  sector_size :: u32

definition sectorinfo :: "SECTOR_INFO_T list" where
  "sectorinfo =
     [\<lparr>sector_offset = 0x00000000, sector_size = 0x00002000\<rparr>,
      \<lparr>sector_offset = 0x00002000, sector_size = 0x00002000\<rparr>,
      \<lparr>sector_offset = 0x00004000, sector_size = 0x00002000\<rparr>,
      \<lparr>sector_offset = 0x00006000, sector_size = 0x00002000\<rparr>,
      \<lparr>sector_offset = 0x00008000, sector_size = 0x00002000\<rparr>,
      \<lparr>sector_offset = 0x0000A000, sector_size = 0x00002000\<rparr>,
      \<lparr>sector_offset = 0x0000C000, sector_size = 0x00002000\<rparr>,
      \<lparr>sector_offset = 0x0000E000, sector_size = 0x00002000\<rparr>,
      \<lparr>sector_offset = 0x00010000, sector_size = 0x00010000\<rparr>,
      \<lparr>sector_offset = 0x00020000, sector_size = 0x00010000\<rparr>,
      \<lparr>sector_offset = 0x00030000, sector_size = 0x00010000\<rparr>,
      \<lparr>sector_offset = 0x00040000, sector_size = 0x00010000\<rparr>,
      \<lparr>sector_offset = 0x00050000, sector_size = 0x00010000\<rparr>,
      \<lparr>sector_offset = 0x00060000, sector_size = 0x00010000\<rparr>,
      \<lparr>sector_offset = 0x00070000, sector_size = 0x00010000\<rparr>,
      \<lparr>sector_offset = 0xFFFFFFFF, sector_size = 0xFFFFFFFF\<rparr>]"

definition PAGE_SIZE :: u32 where "PAGE_SIZE = 512"

definition PROGRAM_REGIONS :: nat where "PROGRAM_REGIONS = 2"

text \<open>The driver's table \<open>pregions\<close>, without the pointer to the driver's own function
  table (only addresses and sizes are read from it after start-up).\<close>

definition pregions :: "DFUPROG_REGION_INFO list" where
  "pregions =
     [\<lparr>region_addr = 0x1A000000, region_size = 0x00080000, regname = ''FLASH bank A'',
       region_buffer_size = 512\<rparr>,
      \<lparr>region_addr = 0x1B000000, region_size = 0x00080000, regname = ''FLASH bank B'',
       region_buffer_size = 512\<rparr>]"

text \<open>A call of the boot ROM: \<open>iap_entry(command, result)\<close> with the command words the
  caller has just set; \<open>result[0]\<close> is returned, and the call is logged.\<close>

definition iap_entry :: "platform \<Rightarrow> u32 list \<Rightarrow> dfu_state \<Rightarrow> u32 \<times> dfu_state" where
  "iap_entry E command s =
     (let (result0, m) = iap_rom E command (mem s)
      in (result0, s\<lparr>mem := m, iap_calls := iap_calls s @ [command]\<rparr>))"

text \<open>The \<open>for\<close> loop of \<open>progalgo_iflash_findbank\<close> over the banks.\<close>

function findbank_loop :: "u32 \<Rightarrow> nat \<Rightarrow> int" where
  "findbank_loop addr bank =
     (if bank < PROGRAM_REGIONS then
        (if addr \<ge> region_addr (pregions ! bank) \<and>
            addr < region_addr (pregions ! bank) + region_size (pregions ! bank)
         then int bank
         else findbank_loop addr (bank + 1))
      else int bank)"
  by pat_completeness auto
termination
  by (relation "measure (\<lambda>(addr, bank). PROGRAM_REGIONS - bank)") auto

declare findbank_loop.simps [simp del]

definition progalgo_iflash_findbank ::
  "platform \<Rightarrow> 'a region_list \<Rightarrow> u32 \<Rightarrow> dfu_state \<Rightarrow> int \<times> dfu_state" where
  "progalgo_iflash_findbank E rg addr s =
     (let (regIndex, s1) = algo_root_isRegionValid E rg addr 0 s
      in (findbank_loop addr 0, s1))"

text \<open>\<open>progalgo_iflash_progaddrvalid\<close>. \<open>sg\<close> and \<open>PAGE_SIZE * sg\<close> are \<open>int\<close> in C and
  compared with the unsigned \<open>size\<close>; the product is taken modulo \<open>2^32\<close>.\<close>

definition progalgo_iflash_progaddrvalid ::
  "platform \<Rightarrow> 'a region_list \<Rightarrow> u32 \<Rightarrow> u32 \<Rightarrow> dfu_state \<Rightarrow> u32 \<times> dfu_state" where
  "progalgo_iflash_progaddrvalid E rg addr sz s =
     (let (bank, s1) = progalgo_iflash_findbank E rg addr s
      in if bank < 0
         then (0, DFUDEBUG E ''FLASH: Address does not map to bank\<newline>'' [] s1)
         else if addr AND (PAGE_SIZE - 1) \<noteq> 0
         then (0, DFUDEBUG E ''FLASH: Address is not 512 byte aligned\<newline>'' [] s1)
         else (let sg = sz div PAGE_SIZE
               in if sz \<noteq> PAGE_SIZE * sg
                  then (0, DFUDEBUG E ''FLASH: Size must be a multiple of 512 bytes\<newline>'' [] s1)
                  else (sz, s1)))"

text \<open>
  \<open>progalgo_iflash_find_sectorrange\<close>. Each of its two \<open>while\<close> loops walks the
  sector table from \<open>idx\<close> and stops in one of two ways: at the end-of-list entry
  (\<open>idx = -1\<close>), or at the sector that holds the address, where it sets the sector
  number and the \<open>aligned\<close> flag. The loops return \<open>(idx, sector, aligned)\<close>. The table
  ends with the end-of-list entry, so the index never runs past it.
\<close>

definition regstart :: "u32 \<Rightarrow> nat \<Rightarrow> u32" where
  "regstart addrbase idx = addrbase + sector_offset (sectorinfo ! idx)"

definition regend :: "u32 \<Rightarrow> nat \<Rightarrow> u32" where
  "regend addrbase idx = regstart addrbase idx + sector_size (sectorinfo ! idx) - 1"

function find_secstart_loop :: "u32 \<Rightarrow> u32 \<Rightarrow> nat \<Rightarrow> int \<Rightarrow> int \<times> u32 \<times> int" where
  "find_secstart_loop addrbase addr idx aligned =
     (if idx < length sectorinfo then
        (if sector_offset (sectorinfo ! idx) = 0xFFFFFFFF then (-1, 0xFFFFFFFF, aligned)
         else if addr \<ge> regstart addrbase idx \<and> addr \<le> regend addrbase idx
         then (int idx, of_nat idx, if addr = regstart addrbase idx then 1 else 0)
         else find_secstart_loop addrbase addr (idx + 1) aligned)
      else (-1, 0xFFFFFFFF, aligned))"
  by pat_completeness auto
termination
  by (relation "measure (\<lambda>(addrbase, addr, idx, aligned). length sectorinfo - idx)") auto

function find_secend_loop :: "u32 \<Rightarrow> u32 \<Rightarrow> nat \<Rightarrow> int \<Rightarrow> int \<times> u32 \<times> int" where
  "find_secend_loop addrbase addrend idx aligned =
     (if idx < length sectorinfo then
        (if sector_offset (sectorinfo ! idx) = 0xFFFFFFFF then (-1, 0xFFFFFFFF, aligned)
         else if addrend \<ge> regstart addrbase idx \<and> addrend \<le> regend addrbase idx
         then (int idx, of_nat idx, if addrend = regend addrbase idx then 1 else 0)
         else find_secend_loop addrbase addrend (idx + 1) aligned)
      else (-1, 0xFFFFFFFF, aligned))"
  by pat_completeness auto
termination
  by (relation "measure (\<lambda>(addrbase, addrend, idx, aligned). length sectorinfo - idx)") auto

declare find_secstart_loop.simps [simp del]
declare find_secend_loop.simps [simp del]

text \<open>
  The result is \<open>(return value, bank, secstart, secend, aligned, globals)\<close>. The bank
  comes from \<open>progalgo_iflash_findbank\<close>; for a bank outside \<open>pregions\<close> the C code reads
  past the table, which is \<open>None\<close> here. When the function returns 0 the callers read
  none of the output parameters.
\<close>

definition progalgo_iflash_find_sectorrange ::
  "platform \<Rightarrow> 'a region_list \<Rightarrow> u32 \<Rightarrow> u32 \<Rightarrow> dfu_state
     \<Rightarrow> (u32 \<times> int \<times> u32 \<times> u32 \<times> int \<times> dfu_state) option" where
  "progalgo_iflash_find_sectorrange E rg addr sz s =
     (let (bank, s1) = progalgo_iflash_findbank E rg addr s
      in if \<not> (0 \<le> bank \<and> nat bank < length pregions) then None
         else
           (let addrbase = region_addr (pregions ! nat bank);
                addrend = addr + sz - 1;
                (idx, secstart, aligned) = find_secstart_loop addrbase addr 0 0
            in if idx = -1 then Some (0, bank, secstart, 0xFFFFFFFF, aligned, s1)
               else
                 (let (idx2, secend, aligned2) = find_secend_loop addrbase addrend (nat idx) aligned
                  in if idx2 = -1 then Some (0, bank, secstart, secend, aligned2, s1)
                     else Some (sz, bank, secstart, secend, aligned2, s1))))"

definition progalgo_iflash_prepwrite ::
  "platform \<Rightarrow> u32 \<Rightarrow> u32 \<Rightarrow> u32 \<Rightarrow> dfu_state \<Rightarrow> u32 \<times> dfu_state" where
  "progalgo_iflash_prepwrite E bank secstart secend s =
     (let (result0, s1) = iap_entry E [IAP_PREP_SECS, secstart, secend, bank] s
      in (result0,
          if result0 \<noteq> IAP_CMD_SUCCESS E
          then DFUDEBUG E ''FLASH: Error preparing sectors %d-%d (bank %d), error=%d\<newline>''
                 [secstart, secend, bank, result0] s1
          else s1))"

definition progalgo_iflash_erasesectors ::
  "platform \<Rightarrow> u32 \<Rightarrow> u32 \<Rightarrow> u32 \<Rightarrow> dfu_state \<Rightarrow> u32 \<times> dfu_state" where
  "progalgo_iflash_erasesectors E bank secstart secend s =
     (let (result0, s1) =
            iap_entry E [IAP_ERASE_SECS, secstart, secend, CPUCLOCKFRQINKHZ E, bank] s
      in (result0,
          if result0 \<noteq> IAP_CMD_SUCCESS E
          then DFUDEBUG E ''FLASH: Error erasing sectors %d-%d (bank %d)\<newline>''
                 [secstart, secend, bank] s1
          else s1))"

text \<open>Carriage return and line feed, which end some of the driver's messages.\<close>

definition CRLF :: string where
  "CRLF = [CHR 0x0D, CHR 0x0A]"

definition progalgo_intflash_erase_region ::
  "platform \<Rightarrow> 'a region_list \<Rightarrow> u32 \<Rightarrow> u32 \<Rightarrow> dfu_state \<Rightarrow> (u32 \<times> dfu_state) option" where
  "progalgo_intflash_erase_region E rg start sz s =
     (let s0 = DFUDEBUG E ''FLASHERASE: %p with size %p\<newline>'' [start, sz] s;
          (valid, s1) = progalgo_iflash_progaddrvalid E rg start sz s0
      in if valid = 0
         then Some (0, DFUDEBUG E (''FLASHERASE: address/size validation failure'' @ CRLF) [] s1)
         else
           (case progalgo_iflash_find_sectorrange E rg start sz s1 of
              None \<Rightarrow> None
            | Some (found, bank, secstart, secend, aligned, s2) \<Rightarrow>
                if found = 0
                then Some (0, DFUDEBUG E (''FLASHERASE: sector range lookup failure'' @ CRLF) [] s2)
                else if aligned = 0
                then Some (0, DFUDEBUG E
                                (''FLASHERASE: Address range must be sector aligned'' @ CRLF) [] s2)
                else
                  (let s3 = DFUDEBUG E ''FLASHERASE: Bank %d, Start sec %d, End sec %d\<newline>''
                              [word_of_int bank, secstart, secend] s2;
                       (prep, s4) = progalgo_iflash_prepwrite E (word_of_int bank) secstart secend s3
                   in if prep \<noteq> IAP_CMD_SUCCESS E then Some (0, s4)
                      else
                        (let (er, s5) =
                               progalgo_iflash_erasesectors E (word_of_int bank) secstart secend s4
                         in if er \<noteq> IAP_CMD_SUCCESS E then Some (0, s5)
                            else
                              (let (blank, s6) =
                                     iap_entry E [IAP_BLANK_CHECK_SECS, secstart, secend,
                                                  word_of_int bank] s5
                               in if blank \<noteq> IAP_CMD_SUCCESS E
                                  then Some (0, DFUDEBUG E
                                                  (''FLASHERASE: Error erasing sectors'' @ CRLF) [] s6)
                                  else Some (sz, s6))))))"

text \<open>\<open>progalgo_intflash_erase_all\<close> reads \<open>regionList[regIndex]\<close> with the index the lookup
  returned; for \<open>-1\<close> that is outside the array.\<close>

definition progalgo_intflash_erase_all ::
  "platform \<Rightarrow> 'a region_list \<Rightarrow> u32 \<Rightarrow> u32 \<Rightarrow> dfu_state \<Rightarrow> (u32 \<times> dfu_state) option" where
  "progalgo_intflash_erase_all E rg start sz s =
     (let (regIndex, s1) = algo_root_isRegionValid E rg start sz s
      in if regIndex < 0 then None
         else progalgo_intflash_erase_region E rg
                (region_addr (rg ! nat regIndex)) (region_size (rg ! nat regIndex)) s1)"

text \<open>
  The padding loop \<open>for (; wsize < limit; wsize++) fbuff[wsize] = 0xFF\<close> of both write
  functions, on the memory; it returns the memory and the final \<open>wsize\<close>.
\<close>

function pad_loop :: "(u32 \<Rightarrow> u8) \<Rightarrow> u32 \<Rightarrow> u32 \<Rightarrow> u32 \<Rightarrow> (u32 \<Rightarrow> u8) \<times> u32" where
  "pad_loop m fbuff wsize limit =
     (if wsize < limit then pad_loop (m(fbuff + wsize := 0xFF)) fbuff (wsize + 1) limit
      else (m, wsize))"
  by pat_completeness auto
termination
proof (relation "measure (\<lambda>(m, fbuff, wsize, limit). unat limit - unat wsize)")
  show "wf (measure (\<lambda>(m, fbuff, wsize, limit). unat limit - unat wsize))"
    by simp
next
  fix m :: "u32 \<Rightarrow> u8" and fbuff wsize limit :: u32
  assume lt: "wsize < limit"
  then have below: "unat wsize < unat limit"
    by (simp add: word_less_nat_alt)
  moreover have "unat limit < 2 ^ 32"
    using unsigned_less [of limit, where 'a = nat] by simp
  ultimately have "unat wsize + unat (1 :: u32) < 2 ^ LENGTH(32)"
    by simp
  then have "unat (wsize + 1) = unat wsize + 1"
    by (simp add: unat_add_lem [THEN iffD1])
  with below
  show "((m(fbuff + wsize := 0xFF), fbuff, wsize + 1, limit), (m, fbuff, wsize, limit))
      \<in> measure (\<lambda>(m, fbuff, wsize, limit). unat limit - unat wsize)"
    by simp
qed

declare pad_loop.simps [simp del]

text \<open>\<open>memmove(dst, src, n)\<close> on the memory: the \<open>n\<close> bytes from \<open>dst\<close> on receive the
  bytes the source range held before the call.\<close>

definition memmove :: "(u32 \<Rightarrow> u8) \<Rightarrow> u32 \<Rightarrow> u32 \<Rightarrow> u32 \<Rightarrow> (u32 \<Rightarrow> u8)" where
  "memmove m dst src n = (\<lambda>a. if a - dst < n then m (src + (a - dst)) else m a)"

definition progalgo_intflash_write ::
  "platform \<Rightarrow> 'a region_list \<Rightarrow> u32 \<Rightarrow> u32 \<Rightarrow> u32 \<Rightarrow> dfu_state
     \<Rightarrow> (u32 \<times> dfu_state) option" where
  "progalgo_intflash_write E rg buff start sz s =
     (let s0 = DFUDEBUG E ''FLASHWRITE: %p with size %p\<newline>'' [start, sz] s
      in if sz > PAGE_SIZE
         then Some (0, DFUDEBUG E (''FLASHWRITE: Program buffer too big'' @ CRLF) [] s0)
         else
           (let (wsize, s1) =
                  (if sz < PAGE_SIZE
                   then (let (m, wsize) = pad_loop (mem s0) buff sz PAGE_SIZE
                         in (wsize,
                             DFUDEBUG E ''FLASHWRITE: Last sector too small, padded %d bytes\<newline>''
                               [wsize - sz] (s0\<lparr>mem := m\<rparr>)))
                   else (sz, s0));
                (valid, s2) = progalgo_iflash_progaddrvalid E rg start wsize s1
            in if valid = 0
               then Some (0, DFUDEBUG E
                               (''FLASHWRITE: Input address/size is not valid'' @ CRLF) [] s2)
               else
                 (case progalgo_iflash_find_sectorrange E rg start wsize s2 of
                    None \<Rightarrow> None
                  | Some (found, bank, secstart, secend, aligned, s3) \<Rightarrow>
                      if found = 0
                      then Some (0, DFUDEBUG E
                                      (''FLASHWRITE: sector range lookup failure'' @ CRLF) [] s3)
                      else
                        (let (prep, s4) =
                               progalgo_iflash_prepwrite E (word_of_int bank) secstart secend s3
                         in if prep \<noteq> IAP_CMD_SUCCESS E then Some (0, s4)
                            else
                              (let (prog, s5) =
                                     iap_entry E [IAP_RAM_TO_FLASH, start, buff, PAGE_SIZE,
                                                  CPUCLOCKFRQINKHZ E] s4
                               in if prog \<noteq> IAP_CMD_SUCCESS E
                                  then Some (0, DFUDEBUG E
                                       (''FLASHWRITE: Error programming address range'' @ CRLF) [] s5)
                                  else
                                    (let (cmp, s6) =
                                           iap_entry E [IAP_COMPARE, start, buff, PAGE_SIZE] s5
                                     in if cmp \<noteq> IAP_CMD_SUCCESS E
                                        then Some (0, DFUDEBUG E
                                             (''FLASHWRITE: Verify error on program'' @ CRLF) [] s6)
                                        else Some (sz, s6)))))))"

definition progalgo_intflash_read ::
  "platform \<Rightarrow> u32 \<Rightarrow> u32 \<Rightarrow> u32 \<Rightarrow> dfu_state \<Rightarrow> (u32 \<times> dfu_state) option" where
  "progalgo_intflash_read E buff start sz s =
     (let s0 = DFUDEBUG E ''FLASHREAD @ 0x%p, %p bytes\<newline>'' [start, sz] s
      in Some (sz, s0\<lparr>mem := memmove (mem s0) buff start sz\<rparr>))"

definition progalgo_intflash_close :: "u32 \<Rightarrow> dfu_state \<Rightarrow> dfu_state option" where
  "progalgo_intflash_close start s = Some s"

text \<open>The driver's function table \<open>palgos\<close>, for the registry \<open>rg\<close> it looks addresses up
  in.\<close>

definition intflash_palgos :: "platform \<Rightarrow> 'a region_list \<Rightarrow> PROGALGOS_T" where
  "intflash_palgos E rg =
     \<lparr>algo_erase_region = progalgo_intflash_erase_region E rg,
      algo_erase_all = progalgo_intflash_erase_all E rg,
      algo_write = progalgo_intflash_write E rg,
      algo_read = progalgo_intflash_read E,
      algo_close = progalgo_intflash_close\<rparr>"

section \<open>The EEPROM driver\<close>

text \<open>A 32-bit store on the little-endian Cortex-M.\<close>

definition store32 :: "(u32 \<Rightarrow> u8) \<Rightarrow> u32 \<Rightarrow> u32 \<Rightarrow> (u32 \<Rightarrow> u8)" where
  "store32 m a w =
     m(a := ucast w, a + 1 := ucast (drop_bit 8 w), a + 2 := ucast (drop_bit 16 w),
       a + 3 := ucast (drop_bit 24 w))"

text \<open>
  The loop \<open>for (i = 0; i < EEPROM_PAGE_SIZE / 4; i++) pEepromMem[i] = fbuff[i]\<close> of
  \<open>progalgo_inteeprom_write\<close>, counted down on the number \<open>n\<close> of iterations left:
  \<open>pEepromMem\<close> points to 32-bit words and \<open>fbuff\<close> to bytes, so iteration \<open>i\<close>
  stores the byte \<open>fbuff[i]\<close>, widened to 32 bits, at byte address \<open>pEepromMem + 4 * i\<close>.
  The wait for the end-of-programming interrupt between two stores changes nothing here.
\<close>

fun eeprom_write_loop :: "(u32 \<Rightarrow> u8) \<Rightarrow> u32 \<Rightarrow> u32 \<Rightarrow> u32 \<Rightarrow> nat \<Rightarrow> (u32 \<Rightarrow> u8)" where
  "eeprom_write_loop m pEepromMem fbuff i 0 = m"
| "eeprom_write_loop m pEepromMem fbuff i (Suc n) =
     eeprom_write_loop (store32 m (pEepromMem + 4 * i) (ucast (m (fbuff + i))))
       pEepromMem fbuff (i + 1) n"

fun eeprom_erase_loop :: "(u32 \<Rightarrow> u8) \<Rightarrow> u32 \<Rightarrow> u32 \<Rightarrow> nat \<Rightarrow> (u32 \<Rightarrow> u8)" where
  "eeprom_erase_loop m pEepromMem i 0 = m"
| "eeprom_erase_loop m pEepromMem i (Suc n) =
     eeprom_erase_loop (store32 m (pEepromMem + 4 * i) 0) pEepromMem (i + 1) n"

text \<open>Both functions read \<open>regionList[regIndex]\<close> with the index the lookup returned
  (outside the array for \<open>-1\<close>) and divide by \<open>EEPROM_PAGE_SIZE\<close>.\<close>

definition progalgo_inteeprom_erase_region ::
  "platform \<Rightarrow> 'a region_list \<Rightarrow> u32 \<Rightarrow> u32 \<Rightarrow> dfu_state \<Rightarrow> (u32 \<times> dfu_state) option" where
  "progalgo_inteeprom_erase_region E rg start sz s =
     (let s0 = DFUDEBUG E ''EEPROMERASE: %p with size %p\<newline>'' [start, sz] s;
          (regIndex, s1) = algo_root_isRegionValid E rg start sz s0
      in if regIndex < 0 \<or> EEPROM_PAGE_SIZE E = 0 then None
         else
           (let pageAddr = (start - region_addr (rg ! nat regIndex)) div EEPROM_PAGE_SIZE E;
                pEepromMem = EEPROM_ADDRESS E pageAddr 0
            in Some (sz, s1\<lparr>mem := eeprom_erase_loop (mem s1) pEepromMem 0
                                       (unat (EEPROM_PAGE_SIZE E div 4))\<rparr>)))"

definition progalgo_inteeprom_write ::
  "platform \<Rightarrow> 'a region_list \<Rightarrow> u32 \<Rightarrow> u32 \<Rightarrow> u32 \<Rightarrow> dfu_state
     \<Rightarrow> (u32 \<times> dfu_state) option" where
  "progalgo_inteeprom_write E rg buff start sz s =
     (let s0 = DFUDEBUG E ''EEPROMWRITE: %p with size %p\<newline>'' [start, sz] s;
          (regIndex, s1) = algo_root_isRegionValid E rg start sz s0
      in if regIndex < 0 \<or> EEPROM_PAGE_SIZE E = 0 then None
         else
           (let pageAddr = (start - region_addr (rg ! nat regIndex)) div EEPROM_PAGE_SIZE E;
                pEepromMem = EEPROM_ADDRESS E pageAddr 0;
                s2 = (if sz < EEPROM_PAGE_SIZE E
                      then (let (m, wsize) = pad_loop (mem s1) buff sz (EEPROM_PAGE_SIZE E)
                            in DFUDEBUG E
                                 ''EEPROMWRITE: Last sector too small, padded %d bytes\<newline>''
                                 [wsize - sz] (s1\<lparr>mem := m\<rparr>))
                      else s1)
            in Some (sz, s2\<lparr>mem := eeprom_write_loop (mem s2) pEepromMem buff 0
                                       (unat (EEPROM_PAGE_SIZE E div 4))\<rparr>)))"

definition progalgo_inteeprom_read ::
  "platform \<Rightarrow> u32 \<Rightarrow> u32 \<Rightarrow> u32 \<Rightarrow> dfu_state \<Rightarrow> (u32 \<times> dfu_state) option" where
  "progalgo_inteeprom_read E buff start sz s =
     (let s0 = DFUDEBUG E ''EEPROMREAD @ 0x%p, %p bytes\<newline>'' [start, sz] s
      in Some (sz, s0\<lparr>mem := memmove (mem s0) buff start sz\<rparr>))"

definition progalgo_inteeprom_close :: "u32 \<Rightarrow> dfu_state \<Rightarrow> dfu_state option" where
  "progalgo_inteeprom_close start s = Some s"

definition inteeprom_palgos :: "platform \<Rightarrow> 'a region_list \<Rightarrow> PROGALGOS_T" where
  "inteeprom_palgos E rg =
     \<lparr>algo_erase_region = progalgo_inteeprom_erase_region E rg,
      algo_erase_all = progalgo_inteeprom_erase_region E rg,
      algo_write = progalgo_inteeprom_write E rg,
      algo_read = progalgo_inteeprom_read E,
      algo_close = progalgo_inteeprom_close\<rparr>"

section \<open>The session state machine (dfuutil_programming_dfu_ops.c)\<close>


subsection \<open>Responses to the host commands\<close>

definition usbDFUSetVerbose :: "u32 \<Rightarrow> dfu_state \<Rightarrow> dfu_state" where
  "usbDFUSetVerbose addr s =
     (let s1 = s\<lparr>hostCmd := DFU_HOSTCMD_SETDEBUG\<rparr>
      in if addr AND 1 = 0 then s1\<lparr>verifyDebug := True\<rparr> else s1\<lparr>verifyDebug := False\<rparr>)"

text \<open>\<open>usbDFUStartSession\<close> reads \<open>regionList[currentRegion]\<close>. For an empty registry
  that is slot 0 of the static array above \<open>num_regions\<close>, taken as zero-initialised.\<close>

definition usbDFUStartSession ::
  "platform \<Rightarrow> DFUPROG_REGIONLIST_T \<Rightarrow> u32 \<Rightarrow> u32 \<Rightarrow> dfu_state \<Rightarrow> dfu_state" where
  "usbDFUStartSession E rl addr sz s =
     (let s1 = s\<lparr>currStatus := DFU_OPSTS_IDLE, hostCmd := DFU_HOSTCMD_STARTNEWSESS\<rparr>;
          (found, s2) = algo_root_isRegionValid E rl addr sz s1;
          region = (if found < 0 then 0 else found)
      in s2\<lparr>currentRegion := region,
            currRegionData := Some (nat region),
            buffer_size := (if nat region < length rl
                            then region_buffer_size (rl ! nat region) else 0),
            currCmdAddr := addr,
            currCmdSize := sz\<rparr>)"

definition usbDFUEraseAll :: "dfu_state \<Rightarrow> dfu_state" where
  "usbDFUEraseAll s = s\<lparr>currStatus := DFU_OPSTS_ERASE_ALL_ST, hostCmd := DFU_HOSTCMD_ERASE_ALL\<rparr>"

definition usbDFUEraseRegion :: "u32 \<Rightarrow> u32 \<Rightarrow> dfu_state \<Rightarrow> dfu_state" where
  "usbDFUEraseRegion addr sz s =
     s\<lparr>currStatus := DFU_OPSTS_ERASE_ST, hostCmd := DFU_HOSTCMD_ERASE_REGION,
       currCmdAddr := addr, currCmdSize := sz\<rparr>"

definition usbDFUProgRegion :: "u32 \<Rightarrow> u32 \<Rightarrow> dfu_state \<Rightarrow> dfu_state" where
  "usbDFUProgRegion addr sz s =
     s\<lparr>currStatus := DFU_OPSTS_PROG_STREAM, hostCmd := DFU_HOSTCMD_PROGRAM,
       currCmdAddr := addr, currCmdSize := sz\<rparr>"

definition usbDFUReadRegion :: "u32 \<Rightarrow> u32 \<Rightarrow> dfu_state \<Rightarrow> dfu_state" where
  "usbDFUReadRegion addr sz s =
     s\<lparr>currStatus := DFU_OPSTS_READBUSY, hostCmd := DFU_HOSTCMD_READBACK,
       currCmdAddr := addr, currCmdSize := sz\<rparr>"

definition usbDFUReset :: "dfu_state \<Rightarrow> dfu_state" where
  "usbDFUReset s = s\<lparr>currStatus := DFU_OPSTS_RESET, hostCmd := DFU_HOSTCMD_RESET\<rparr>"

definition usbDFUExecute :: "u32 \<Rightarrow> dfu_state \<Rightarrow> dfu_state" where
  "usbDFUExecute addr s =
     s\<lparr>currStatus := DFU_OPSTS_EXEC, hostCmd := DFU_HOSTCMD_EXECUTE, currCmdAddr := addr\<rparr>"

definition dfu_done :: "dfu_state \<Rightarrow> dfu_state" where
  "dfu_done s = s\<lparr>dfu_done_algo := 1\<rparr>"

definition version_warning :: string where
  "version_warning = ''DFU Utility and programming algorithm have different versions\<newline>''"

definition checkMagicHeader ::
  "platform \<Rightarrow> DFU_FROMHOST_PACKETHDR_T \<Rightarrow> dfu_state \<Rightarrow> bool \<times> dfu_state" where
  "checkMagicHeader E pOutHdr s =
     (let checked = False
      in (True,
          if hdr_magic pOutHdr \<noteq> DFUPROG_VALIDVAL \<and> checked = False
          then DFUDEBUG E version_warning [] s
          else s))"

subsection \<open>OUT packets: \<open>dfu_wr\<close>\<close>

datatype dfu_status = DFU_STATUS_OK

text \<open>
  \<open>dfu_wr\<close> is called by the USB stack after it has stored \<open>length\<close> bytes at \<open>*pBuff\<close>.
  The result is the returned status, the new value of \<open>*pBuff\<close> and the globals.
  \<open>bwPollTimeout\<close> is not used by the function; its parameter \<open>length\<close> is \<open>len\<close> here.
  The branch that parses a command packet is \<open>dfu_wr_command\<close>, and the \<open>switch\<close> on the
  command inside it is \<open>dfu_wr_switch\<close>; the \<open>case\<close> of \<open>DFU_HOSTCMD_PROGRAM\<close> returns
  from inside the \<open>switch\<close>.
\<close>

definition dfu_wr_switch ::
  "platform \<Rightarrow> DFUPROG_REGIONLIST_T \<Rightarrow> u32 \<Rightarrow> u32 \<Rightarrow> u32 \<Rightarrow> dfu_state
     \<Rightarrow> dfu_status \<times> u32 \<times> dfu_state" where
  "dfu_wr_switch E rl cmd addr sz s1 =
     (if cmd = DFU_HOSTCMD_PROGRAM
      then (DFU_STATUS_OK, dfuProgBuff_addr E,
            (usbDFUProgRegion addr sz s1)\<lparr>outPktSizeIdx := 0\<rparr>)
      else
        (let s2 =
               (if cmd = DFU_HOSTCMD_SETDEBUG then usbDFUSetVerbose addr s1
                else if cmd = DFU_HOSTCMD_PROGOTP \<or> cmd = DFU_HOSTCMD_READOTP then s1
                else if cmd = DFU_HOSTCMD_STARTNEWSESS then usbDFUStartSession E rl addr sz s1
                else if cmd = DFU_HOSTCMD_ERASE_ALL then usbDFUEraseAll s1
                else if cmd = DFU_HOSTCMD_ERASE_REGION then usbDFUEraseRegion addr sz s1
                else if cmd = DFU_HOSTCMD_READBACK then usbDFUReadRegion addr sz s1
                else if cmd = DFU_HOSTCMD_RESET then usbDFUReset s1
                else if cmd = DFU_HOSTCMD_EXECUTE then usbDFUExecute addr s1
                else (DFUDEBUG E ''Unknown command (%d)\<newline>'' [cmd] s1)
                       \<lparr>currStatus := DFU_OPSTS_ERRUN\<rparr>)
         in (DFU_STATUS_OK, dfuIn_addr E, s2\<lparr>outPktSizeIdx := 0\<rparr>)))"

definition dfu_wr_command ::
  "platform \<Rightarrow> DFUPROG_REGIONLIST_T \<Rightarrow> dfu_state \<Rightarrow> dfu_status \<times> u32 \<times> dfu_state" where
  "dfu_wr_command E rl s =
     (let pOutHdr = dfuIn s;
          addr = hdr_addr pOutHdr;
          sz = hdr_size pOutHdr;
          s1 = snd (checkMagicHeader E pOutHdr s)
      in dfu_wr_switch E rl (hdr_hostCmd pOutHdr) addr sz s1)"

definition dfu_wr ::
  "platform \<Rightarrow> DFUPROG_REGIONLIST_T \<Rightarrow> u32 \<Rightarrow> u32 \<Rightarrow> u32 \<Rightarrow> dfu_state
     \<Rightarrow> dfu_status \<times> u32 \<times> dfu_state" where
  "dfu_wr E rl block_num pBuff len s =
     (let (pBuff1, s1) =
            (if len \<noteq> 0
             then (pBuff + len, s\<lparr>outPktSizeIdx := outPktSizeIdx s + len\<rparr>)
             else (pBuff, s))
      in if currStatus s1 = DFU_OPSTS_PROG_STREAM then
           (if len = 0
            then (DFU_STATUS_OK, dfuProgBuff_addr E, s1\<lparr>outPktSizeIdx := 0\<rparr>)
            else if outPktSizeIdx s1 = buffer_size s1 \<or> outPktSizeIdx s1 = currCmdSize s1
            then (DFU_STATUS_OK, dfuIn_addr E,
                  s1\<lparr>currStatus := DFU_OPSTS_PROG,
                     progSize := outPktSizeIdx s1,
                     currCmdSize := currCmdSize s1 - outPktSizeIdx s1,
                     outPktSizeIdx := 0\<rparr>)
            else (DFU_STATUS_OK, pBuff1, s1))
         else if len \<noteq> 0 then dfu_wr_command E rl s1
         else (DFU_STATUS_OK, dfuIn_addr E, s1\<lparr>outPktSizeIdx := 0\<rparr>))"

subsection \<open>IN packets: \<open>dfu_rd\<close>\<close>

text \<open>\<open>usbDFUBuildStatus\<close> returns the size of the status packet: the 16-byte header
  and, when debug text was taken from the queue, 64 bytes for it.\<close>

definition usbDFUBuildStatus :: "dfu_state \<Rightarrow> int \<times> dfu_state" where
  "usbDFUBuildStatus s =
     (let (strbytes, s1) = usbDebugFill 64 s;
          bytes = 4 + 4 + 4 + 4
      in (if strbytes \<noteq> 0 then bytes + 64 else bytes, s1))"

definition usbDFUReturnStatus :: "dfu_state \<Rightarrow> int \<times> dfu_state" where
  "usbDFUReturnStatus s = usbDFUBuildStatus s"



subsection \<open>The background loop: \<open>dfu_util_process\<close>\<close>

text \<open>
  One pass through the body of the \<open>while (1)\<close> loop. The pass either returns to the
  head of the loop (\<open>Running\<close>) or never does: the chip is reset, control jumps to
  \<open>currCmdAddr\<close>, or the dead loop is entered. \<open>Undefined\<close> stands for undefined
  behaviour of the C code (a driver reading outside a table, \<open>currRegionData\<close> being
  \<open>NULL\<close>). Delays, \<open>__WFI()\<close> and the USB connect line leave the globals as they are.
\<close>

datatype outcome =
    Running dfu_state
  | SysReset dfu_state
  | Execute u32 dfu_state
  | DeadLoop dfu_state
  | Undefined

definition close_current ::
  "platform \<Rightarrow> DFUPROG_REGIONLIST_T \<Rightarrow> dfu_state \<Rightarrow> dfu_state option" where
  "close_current E rl s =
     (case currRegionData s of
        None \<Rightarrow> None
      | Some i \<Rightarrow>
          if i < length rl
          then map_option snd (algo_root_close E rl (region_addr (rl ! i)) s)
          else None)"

definition dfu_util_process_step ::
  "platform \<Rightarrow> DFUPROG_REGIONLIST_T \<Rightarrow> dfu_state \<Rightarrow> outcome" where
  "dfu_util_process_step E rl s =
     (case currStatus s of
        DFU_OPSTS_IDLE \<Rightarrow> Running s
      | DFU_OPSTS_ERRER \<Rightarrow> Running s
      | DFU_OPSTS_READER \<Rightarrow> Running s
      | DFU_OPSTS_PROGER \<Rightarrow> Running s
      | DFU_OPSTS_ERRUN \<Rightarrow> Running s
      | DFU_OPSTS_READREADY \<Rightarrow> Running s
      | DFU_OPSTS_READTRIG \<Rightarrow> Running s
      | DFU_OPSTS_READBUSY \<Rightarrow>
          (let blks = (if currCmdSize s > buffer_size s then buffer_size s else currCmdSize s)
           in case algo_root_read E rl (dfuProgBuff_addr E) (currCmdAddr s) blks s of
                None \<Rightarrow> Undefined
              | Some (r, s1) \<Rightarrow>
                  if r = 0 then Running (s1\<lparr>currStatus := DFU_OPSTS_READER\<rparr>)
                  else Running (s1\<lparr>currStatus := DFU_OPSTS_READTRIG,
                                    currCmdAddr := currCmdAddr s1 + blks\<rparr>))
      | DFU_OPSTS_ERASE_ALL_ST \<Rightarrow>
          (let s0 = s\<lparr>currStatus := DFU_OPSTS_ERASE\<rparr>;
               (regIndex, s1) = algo_root_isRegionValid E rl (currCmdAddr s0) 0 s0
           in if regIndex < 0 then Running (s1\<lparr>currStatus := DFU_OPSTS_ERRER\<rparr>)
              else
                (case algo_root_erase_all E rl (region_addr (rl ! nat regIndex)) s1 of
                   None \<Rightarrow> Undefined
                 | Some (r, s2) \<Rightarrow>
                     if r = 0 then Running (s2\<lparr>currStatus := DFU_OPSTS_ERRER\<rparr>)
                     else Running s2))
      | DFU_OPSTS_ERASE_ST \<Rightarrow>
          (let s0 = s\<lparr>currStatus := DFU_OPSTS_ERASE\<rparr>;
               (regIndex, s1) = algo_root_isRegionValid E rl (currCmdAddr s0) (currCmdSize s0) s0
           in if regIndex < 0 then Running (s1\<lparr>currStatus := DFU_OPSTS_ERRER\<rparr>)
              else
                (case algo_root_erase_region E rl (currCmdAddr s1) (currCmdSize s1) s1 of
                   None \<Rightarrow> Undefined
                 | Some (r, s2) \<Rightarrow>
                     if r = 0 then Running (s2\<lparr>currStatus := DFU_OPSTS_ERRER\<rparr>)
                     else Running s2))
      | DFU_OPSTS_ERASE \<Rightarrow> Running (s\<lparr>currStatus := DFU_OPSTS_IDLE\<rparr>)
      | DFU_OPSTS_PROG_STREAM \<Rightarrow> Running s
      | DFU_OPSTS_PROG \<Rightarrow>
          if progSize s = 0 then Running (s\<lparr>currStatus := DFU_OPSTS_IDLE\<rparr>)
          else
            (case algo_root_write E rl (dfuProgBuff_addr E) (currCmdAddr s) (progSize s) s of
               None \<Rightarrow> Undefined
             | Some (r, s1) \<Rightarrow>
                 if r \<noteq> progSize s1 then Running (s1\<lparr>currStatus := DFU_OPSTS_PROGER\<rparr>)
                 else if progSize s1 < buffer_size s1 \<or> currCmdSize s1 = 0
                 then Running (s1\<lparr>currStatus := DFU_OPSTS_IDLE\<rparr>)
                 else Running (s1\<lparr>currStatus := DFU_OPSTS_PROG_STREAM,
                                   currCmdAddr := currCmdAddr s1 + progSize s1\<rparr>))
      | DFU_OPSTS_RESET \<Rightarrow>
          (case close_current E rl s of None \<Rightarrow> Undefined | Some s1 \<Rightarrow> SysReset s1)
      | DFU_OPSTS_EXEC \<Rightarrow>
          (case close_current E rl s of
             None \<Rightarrow> Undefined
           | Some s1 \<Rightarrow> Execute (currCmdAddr s1) s1)
      | DFU_OPSTS_LOOP \<Rightarrow>
          (case close_current E rl s of None \<Rightarrow> Undefined | Some s1 \<Rightarrow> DeadLoop s1)
      | DFU_OPSTS_VERERR \<Rightarrow> Running s
      | DFU_OPSTS_PROG_RSVD \<Rightarrow> Running s)"

section \<open>Notions used in the statements\<close>

text \<open>The test of \<open>algo_root_isRegionValid\<close> on one region, in the 32-bit arithmetic of
  the code.\<close>

definition region_match :: "'a DFUPROG_REGION_INFO_scheme \<Rightarrow> u32 \<Rightarrow> u32 \<Rightarrow> bool" where
  "region_match r addr sz \<longleftrightarrow>
     addr \<ge> region_addr r \<and> addr + sz \<le> region_addr r + region_size r"

text \<open>The range \<open>[addr, addr + sz)\<close> lies inside the region: the same two comparisons
  on the numbers themselves, without wrap-around.\<close>

definition region_covers :: "'a DFUPROG_REGION_INFO_scheme \<Rightarrow> u32 \<Rightarrow> u32 \<Rightarrow> bool" where
  "region_covers r addr sz \<longleftrightarrow>
     unat (region_addr r) \<le> unat addr \<and>
     unat addr + unat sz \<le> unat (region_addr r) + unat (region_size r)"

subsection \<open>A concrete device\<close>

text \<open>
  An LPC1857 on which the boot ROM reports success (status 0) for every IAP command and
  leaves the memory alone, \<open>sprintf\<close> returns its format string, an EEPROM page has 128
  bytes and \<open>EEPROM_ADDRESS(page, offset)\<close> is \<open>0x20040000 + 128 * page + offset\<close>. Its
  registry holds flash bank A and the EEPROM, each with the driver of this repository.
\<close>

definition lpc1857 :: platform where
  "lpc1857 =
     \<lparr>sprintf = (\<lambda>fmt args. fmt),
      iap_rom = (\<lambda>command m. (0, m)),
      IAP_CMD_SUCCESS = 0,
      SystemCoreClock = 180000000,
      EEPROM_PAGE_SIZE = 128,
      EEPROM_ADDRESS = (\<lambda>page offs. 0x20040000 + 128 * page + offs),
      dfuIn_addr = 0x10081000,
      dfuProgBuff_addr = 0x10083000\<rparr>"

definition lpc1857_regions :: "DFUPROG_REGION_INFO list" where
  "lpc1857_regions =
     [\<lparr>region_addr = 0x1A000000, region_size = 0x00080000, regname = ''FLASH bank A'',
       region_buffer_size = 512\<rparr>,
      \<lparr>region_addr = 0x20040000, region_size = 0x00004000, regname = ''Internal EEPROM'',
       region_buffer_size = 128\<rparr>]"

definition lpc1857_registry :: DFUPROG_REGIONLIST_T where
  "lpc1857_registry =
     [\<lparr>region_addr = 0x1A000000, region_size = 0x00080000, regname = ''FLASH bank A'',
       region_buffer_size = 512, pprogalgos = intflash_palgos lpc1857 lpc1857_regions\<rparr>,
      \<lparr>region_addr = 0x20040000, region_size = 0x00004000, regname = ''Internal EEPROM'',
       region_buffer_size = 128, pprogalgos = inteeprom_palgos lpc1857 lpc1857_regions\<rparr>]"

text \<open>The globals after start-up: everything zero, verbose mode on, no session yet.\<close>

definition boot_state :: dfu_state where
  "boot_state =
     \<lparr>currStatus = DFU_OPSTS_IDLE, hostCmd = 0, currCmdAddr = 0, currCmdSize = 0,
      currentRegion = 0, buffer_size = 0, currRegionData = None,
      usbBuff = (\<lambda>i. CHR 0x00), usbStrIn = 0, usbStrOut = 0, verifyDebug = True,
      dfuIn = \<lparr>hdr_hostCmd = 0, hdr_addr = 0, hdr_size = 0, hdr_magic = 0\<rparr>,
      inPktSize = 0, inPktSizeIdx = 0, outPktSizeIdx = 0, progSize = 0, dfu_done_algo = 0,
      mem = (\<lambda>a. 0), iap_calls = []\<rparr>"

text \<open>The globals at the moment the background loop finds one staged flash page of 512
  bytes to program at the start of bank A, with another 512 bytes still to come, in
  quiet mode.\<close>

definition prog_state :: dfu_state where
  "prog_state = boot_state\<lparr>currStatus := DFU_OPSTS_PROG, currCmdAddr := 0x1A000000,
     currCmdSize := 512, buffer_size := 512, progSize := 512, verifyDebug := False\<rparr>"


subsection \<open>Packets from the host\<close>

text \<open>
  A command packet: the USB stack has stored the 16 bytes of the header \<open>hdr\<close> in
  \<open>dfuIn\<close> and calls \<open>dfu_wr\<close> with length 16. A data packet of a program transfer: the
  stack has stored \<open>len\<close> bytes behind the bytes staged so far in the program buffer and
  calls \<open>dfu_wr\<close> with that length. Both give the globals after the call.
\<close>

definition command_packet ::
  "platform \<Rightarrow> DFUPROG_REGIONLIST_T \<Rightarrow> DFU_FROMHOST_PACKETHDR_T \<Rightarrow> dfu_state \<Rightarrow> dfu_state" where
  "command_packet E rl hdr s = snd (snd (dfu_wr E rl 0 (dfuIn_addr E) 16 (s\<lparr>dfuIn := hdr\<rparr>)))"

definition data_packet ::
  "platform \<Rightarrow> DFUPROG_REGIONLIST_T \<Rightarrow> u32 \<Rightarrow> dfu_state \<Rightarrow> dfu_state" where
  "data_packet E rl len s =
     snd (snd (dfu_wr E rl 0 (dfuProgBuff_addr E + outPktSizeIdx s) len s))"

definition start_session_hdr :: DFU_FROMHOST_PACKETHDR_T where
  "start_session_hdr =
     \<lparr>hdr_hostCmd = DFU_HOSTCMD_STARTNEWSESS, hdr_addr = 0x1A000000, hdr_size = 0x80000,
      hdr_magic = DFUPROG_VALIDVAL\<rparr>"

definition program_hdr :: DFU_FROMHOST_PACKETHDR_T where
  "program_hdr =
     \<lparr>hdr_hostCmd = DFU_HOSTCMD_PROGRAM, hdr_addr = 0x1A000000, hdr_size = 300,
      hdr_magic = DFUPROG_VALIDVAL\<rparr>"

definition set_quiet_hdr :: DFU_FROMHOST_PACKETHDR_T where
  "set_quiet_hdr =
     \<lparr>hdr_hostCmd = DFU_HOSTCMD_SETDEBUG, hdr_addr = 1, hdr_size = 0,
      hdr_magic = DFUPROG_VALIDVAL\<rparr>"

text \<open>The globals in the middle of a program transfer of 300 bytes to flash bank A: after
  start-up the host has opened a session on the bank, sent the \<open>PROGRAM\<close> command and
  the first 100 bytes of data.\<close>

definition streaming_state :: dfu_state where
  "streaming_state =
     data_packet lpc1857 lpc1857_registry 100
       (command_packet lpc1857 lpc1857_registry program_hdr
          (command_packet lpc1857 lpc1857_registry start_session_hdr boot_state))"

text \<open>The globals after start-up once the host has switched to quiet mode.\<close>

definition quiet_state :: dfu_state where
  "quiet_state = command_packet lpc1857 lpc1857_registry set_quiet_hdr boot_state"

subsection \<open>Command packets and their magic field\<close>

text \<open>The globals with the magic field of the received header replaced.\<close>

definition with_magic :: "u32 \<Rightarrow> dfu_state \<Rightarrow> dfu_state" where
  "with_magic m s = s\<lparr>dfuIn := (dfuIn s)\<lparr>hdr_magic := m\<rparr>\<rparr>"

text \<open>Everything in the globals but the debug text (buffer and write index) and the
  received header: the session as the state machine and the drivers see it.\<close>

definition session_view ::
  "dfu_state \<Rightarrow> DFU_OPSTS_T \<times> u32 \<times> u32 \<times> u32 \<times> int \<times> u32 \<times> nat option \<times> int \<times> bool \<times>
     u32 \<times> u32 \<times> u32 \<times> u32 \<times> u32 \<times> (u32 \<Rightarrow> u8) \<times> u32 list list" where
  "session_view s =
     (currStatus s, hostCmd s, currCmdAddr s, currCmdSize s, currentRegion s, buffer_size s,
      currRegionData s, usbStrOut s, verifyDebug s, inPktSize s, inPktSizeIdx s,
      outPktSizeIdx s, progSize s, dfu_done_algo s, mem s, iap_calls s)"

text \<open>An \<open>ERASE_REGION\<close> command packet for the first flash sector whose magic field
  carries version 1.0 instead of 1.11, and the globals after start-up when it has
  arrived.\<close>

definition foreign_erase_hdr :: DFU_FROMHOST_PACKETHDR_T where
  "foreign_erase_hdr =
     \<lparr>hdr_hostCmd = DFU_HOSTCMD_ERASE_REGION, hdr_addr = 0x1A000000, hdr_size = 0x2000,
      hdr_magic = 0x18430100\<rparr>"

definition mismatch_state :: dfu_state where
  "mismatch_state = boot_state\<lparr>dfuIn := foreign_erase_hdr\<rparr>"

subsection \<open>Runs of the debug message queue\<close>








section \<open>The registry lookup\<close>

lemma isRegionValid_loop_done [simp]:
  "length rl \<le> k \<Longrightarrow> isRegionValid_loop rl addr sz v k = v"
  by (subst isRegionValid_loop.simps) simp

lemma isRegionValid_loop_step:
  "k < length rl \<Longrightarrow> isRegionValid_loop rl addr sz v k =
     (if region_match (rl ! k) addr sz then int k
      else isRegionValid_loop rl addr sz v (Suc k))"
  by (subst isRegionValid_loop.simps) (simp add: region_match_def)

text \<open>The loop returns the first index from \<open>k\<close> on whose region passes the test, and
  the initial \<open>validIndex\<close> when there is none.\<close>

lemma isRegionValid_loop_find:
  "isRegionValid_loop rl addr sz v k =
     (case find (\<lambda>i. region_match (rl ! i) addr sz) [k..<length rl] of
        None \<Rightarrow> v | Some i \<Rightarrow> int i)"
proof (induction "length rl - k" arbitrary: k)
  case 0
  then show ?case by simp
next
  case (Suc n)
  then have k: "k < length rl" and n: "n = length rl - Suc k" by auto
  show ?case
    using Suc.hyps(1) [OF n] k
    by (simp add: isRegionValid_loop_step upt_conv_Cons)
qed

lemma isRegionValid_loop_none:
  "(isRegionValid_loop rl addr sz (-1) 0 < 0) =
     (\<forall>i < length rl. \<not> region_match (rl ! i) addr sz)"
proof (cases "find (\<lambda>i. region_match (rl ! i) addr sz) [0..<length rl]")
  case None
  then have "isRegionValid_loop rl addr sz (-1) 0 = -1"
    by (simp add: isRegionValid_loop_find)
  moreover from None have "\<forall>i < length rl. \<not> region_match (rl ! i) addr sz"
    by (auto simp: find_None_iff)
  ultimately show ?thesis
    by simp
next
  case (Some i)
  then have "i < length rl" "region_match (rl ! i) addr sz"
    by (auto simp: find_Some_iff)
  with Some show ?thesis
    by (auto simp: isRegionValid_loop_find)
qed

lemma isRegionValid_loop_first:
  assumes "0 \<le> isRegionValid_loop rl addr sz (-1) 0"
  shows "nat (isRegionValid_loop rl addr sz (-1) 0) < length rl \<and>
         region_match (rl ! nat (isRegionValid_loop rl addr sz (-1) 0)) addr sz \<and>
         (\<forall>j < nat (isRegionValid_loop rl addr sz (-1) 0). \<not> region_match (rl ! j) addr sz)"
proof (cases "find (\<lambda>i. region_match (rl ! i) addr sz) [0..<length rl]")
  case None
  with assms show ?thesis
    by (simp add: isRegionValid_loop_find)
next
  case (Some i)
  then obtain k where k: "k < length [0..<length rl]"
      "region_match (rl ! ([0..<length rl] ! k)) addr sz"
      "i = [0..<length rl] ! k"
      "\<forall>j<k. \<not> region_match (rl ! ([0..<length rl] ! j)) addr sz"
    unfolding find_Some_iff by blast
  then have "k < length rl" "i = k"
    by simp_all
  with k Some show ?thesis
    by (simp add: isRegionValid_loop_find)
qed

text \<open>Where neither sum leaves the 32-bit range, the test of the code is the test on
  the numbers.\<close>

lemma region_match_covers:
  "unat addr + unat sz < 2 ^ 32 \<Longrightarrow> unat (region_addr r) + unat (region_size r) < 2 ^ 32 \<Longrightarrow>
   region_match r addr sz = region_covers r addr sz"
  by (simp add: region_match_def region_covers_def word_le_nat_alt unat_word_ariths)

lemma top_u32: "(0xFFFFFFFF :: u32) = - 1"
  by simp

text \<open>
  C1. The lookup is meant to return not-found for a range that no region covers, such
  as one byte at \<open>0xFFFFFFFF\<close>. In the code \<open>addr + size\<close> is a 32-bit sum:
  \<open>0xFFFFFFFF + 1\<close> wraps to 0, both comparisons succeed for the first registered
  region, and the lookup returns index 0 on the device above, although neither of its
  regions covers that byte.
\<close>

theorem lookup_top_of_memory_found:
  "fst (algo_root_isRegionValid E lpc1857_registry 0xFFFFFFFF 1 s) = 0 \<and>
   \<not> region_covers (lpc1857_registry ! 0) 0xFFFFFFFF 1 \<and>
   \<not> region_covers (lpc1857_registry ! 1) 0xFFFFFFFF 1"
proof -
  have "isRegionValid_loop lpc1857_registry 0xFFFFFFFF 1 (-1) 0 = 0"
    unfolding top_u32
    by (simp add: isRegionValid_loop_step region_match_def lpc1857_registry_def)
  then show ?thesis
    by (simp add: algo_root_isRegionValid_def region_covers_def lpc1857_registry_def)
qed

section \<open>The flash bank of an address\<close>

lemma findbank_loop_eval:
  "findbank_loop addr 0 =
     (if 0x1A000000 \<le> addr \<and> addr < 0x1A080000 then 0
      else if 0x1B000000 \<le> addr \<and> addr < 0x1B080000 then 1 else 2)"
  by (simp add: findbank_loop.simps [of addr 0] findbank_loop.simps [of addr "Suc 0"]
      findbank_loop.simps [of addr "Suc (Suc 0)"] PROGRAM_REGIONS_def pregions_def)

text \<open>
  C10. \<open>progalgo_iflash_findbank\<close> returns 0 for an address in bank A
  (\<open>0x1A000000 .. 0x1A07FFFF\<close>), 1 for one in bank B (\<open>0x1B000000 .. 0x1B07FFFF\<close>) and
  2, the number of banks, for every other address; it is never negative. So
  \<open>progalgo_iflash_progaddrvalid\<close> never takes its branch \<open>bank < 0\<close>: for every input
  it does what the function without that branch does.
\<close>

theorem findbank_never_negative:
  "fst (progalgo_iflash_findbank E rg addr s) =
     (if 0x1A000000 \<le> addr \<and> addr < 0x1A080000 then 0
      else if 0x1B000000 \<le> addr \<and> addr < 0x1B080000 then 1 else 2) \<and>
   fst (progalgo_iflash_findbank E rg addr s) \<in> {0, 1, 2} \<and>
   \<not> fst (progalgo_iflash_findbank E rg addr s) < 0 \<and>
   progalgo_iflash_progaddrvalid E rg addr sz s =
     (let s1 = snd (progalgo_iflash_findbank E rg addr s)
      in if addr AND 511 \<noteq> 0
         then (0, DFUDEBUG E ''FLASH: Address is not 512 byte aligned\<newline>'' [] s1)
         else if sz \<noteq> 512 * (sz div 512)
         then (0, DFUDEBUG E ''FLASH: Size must be a multiple of 512 bytes\<newline>'' [] s1)
         else (sz, s1))"
  by (simp add: progalgo_iflash_findbank_def progalgo_iflash_progaddrvalid_def
      findbank_loop_eval PAGE_SIZE_def split_def Let_def)

section \<open>The debug message queue: indices and content\<close>











section \<open>The root operations\<close>

lemma lookup_found_silent:
  "0 \<le> fst (algo_root_isRegionValid E rl addr sz s) \<Longrightarrow>
   snd (algo_root_isRegionValid E rl addr sz s) = s"
  by (simp add: algo_root_isRegionValid_def Let_def)

lemma lookup_not_found:
  "fst (algo_root_isRegionValid E rl addr sz s) < 0 \<Longrightarrow>
   algo_root_isRegionValid E rl addr sz s =
     (-1, DFUDEBUG E ''Op on invalid region address/size: %p/%p %d\<newline>'' [addr, sz, -1] s)"
proof -
  assume "fst (algo_root_isRegionValid E rl addr sz s) < 0"
  then have neg: "isRegionValid_loop rl addr sz (-1) 0 < 0"
    by (simp add: algo_root_isRegionValid_def Let_def)
  then have "find (\<lambda>i. region_match (rl ! i) addr sz) [0..<length rl] = None"
    by (cases "find (\<lambda>i. region_match (rl ! i) addr sz) [0..<length rl]")
      (simp_all add: isRegionValid_loop_find)
  then have "isRegionValid_loop rl addr sz (-1) 0 = -1"
    by (simp add: isRegionValid_loop_find)
  then show ?thesis
    by (simp add: algo_root_isRegionValid_def Let_def)
qed

lemma lookup_eval:
  "fst (algo_root_isRegionValid E rl addr sz s) = isRegionValid_loop rl addr sz (-1) 0"
  by (simp add: algo_root_isRegionValid_def Let_def)

text \<open>
  C6. When the lookup reports not-found, \<open>algo_root_erase_region\<close>, \<open>algo_root_write\<close>,
  \<open>algo_root_read\<close> and \<open>algo_root_erase_all\<close> return 0 and \<open>algo_root_close\<close> returns
  false; the globals are those before the call with two diagnostics queued (the one of
  the lookup and the one of the operation), so no driver function has run. When the
  lookup finds a region, each operation is the call of that region's driver function
  on the globals as they were, and its result is the driver's result; for \<open>close\<close>,
  whose driver function returns nothing, the result is true.
\<close>

theorem root_dispatch:
  "(fst (algo_root_isRegionValid E rl addr sz s) < 0 \<longrightarrow>
      algo_root_erase_region E rl addr sz s =
        Some (0, DFUDEBUG E ''erase_region invalid: %p:%p\<newline>'' [addr, sz]
                   (snd (algo_root_isRegionValid E rl addr sz s))) \<and>
      algo_root_write E rl buff addr sz s =
        Some (0, DFUDEBUG E ''write_region invalid: %p:%p\<newline>'' [addr, sz]
                   (snd (algo_root_isRegionValid E rl addr sz s))) \<and>
      algo_root_read E rl buff addr sz s =
        Some (0, DFUDEBUG E ''read_region invalid: %p:%p\<newline>'' [addr, sz]
                   (snd (algo_root_isRegionValid E rl addr sz s))) \<and>
      snd (algo_root_isRegionValid E rl addr sz s) =
        DFUDEBUG E ''Op on invalid region address/size: %p/%p %d\<newline>'' [addr, sz, -1] s) \<and>
   (fst (algo_root_isRegionValid E rl addr 0 s) < 0 \<longrightarrow>
      algo_root_erase_all E rl addr s =
        Some (0, DFUDEBUG E ''eraseall_region invalid: %p %d\<newline>'' [addr, -1]
                   (snd (algo_root_isRegionValid E rl addr 0 s))) \<and>
      algo_root_close E rl addr s =
        Some (False, DFUDEBUG E ''close_region invalid: %p\<newline>'' [addr]
                       (snd (algo_root_isRegionValid E rl addr 0 s))) \<and>
      snd (algo_root_isRegionValid E rl addr 0 s) =
        DFUDEBUG E ''Op on invalid region address/size: %p/%p %d\<newline>'' [addr, 0, -1] s) \<and>
   (0 \<le> fst (algo_root_isRegionValid E rl addr sz s) \<longrightarrow>
      algo_root_erase_region E rl addr sz s =
        algo_erase_region
          (pprogalgos (rl ! nat (fst (algo_root_isRegionValid E rl addr sz s)))) addr sz s \<and>
      algo_root_write E rl buff addr sz s =
        algo_write
          (pprogalgos (rl ! nat (fst (algo_root_isRegionValid E rl addr sz s)))) buff addr sz s \<and>
      algo_root_read E rl buff addr sz s =
        algo_read
          (pprogalgos (rl ! nat (fst (algo_root_isRegionValid E rl addr sz s)))) buff addr sz s) \<and>
   (0 \<le> fst (algo_root_isRegionValid E rl addr 0 s) \<longrightarrow>
      algo_root_erase_all E rl addr s =
        algo_erase_all (pprogalgos (rl ! nat (fst (algo_root_isRegionValid E rl addr 0 s))))
          (region_addr (rl ! nat (fst (algo_root_isRegionValid E rl addr 0 s))))
          (region_size (rl ! nat (fst (algo_root_isRegionValid E rl addr 0 s)))) s \<and>
      algo_root_close E rl addr s =
        map_option (Pair True)
          (algo_close (pprogalgos (rl ! nat (fst (algo_root_isRegionValid E rl addr 0 s)))) addr s))"
proof (intro conjI impI)
  assume nf: "fst (algo_root_isRegionValid E rl addr sz s) < 0"
  show "algo_root_erase_region E rl addr sz s =
        Some (0, DFUDEBUG E ''erase_region invalid: %p:%p\<newline>'' [addr, sz]
                   (snd (algo_root_isRegionValid E rl addr sz s)))"
    using nf by (simp add: algo_root_erase_region_def split_def)
  show "algo_root_write E rl buff addr sz s =
        Some (0, DFUDEBUG E ''write_region invalid: %p:%p\<newline>'' [addr, sz]
                   (snd (algo_root_isRegionValid E rl addr sz s)))"
    using nf by (simp add: algo_root_write_def split_def)
  show "algo_root_read E rl buff addr sz s =
        Some (0, DFUDEBUG E ''read_region invalid: %p:%p\<newline>'' [addr, sz]
                   (snd (algo_root_isRegionValid E rl addr sz s)))"
    using nf by (simp add: algo_root_read_def split_def)
  show "snd (algo_root_isRegionValid E rl addr sz s) =
        DFUDEBUG E ''Op on invalid region address/size: %p/%p %d\<newline>'' [addr, sz, -1] s"
    using lookup_not_found [OF nf] by simp
next
  assume nf: "fst (algo_root_isRegionValid E rl addr 0 s) < 0"
  have idx: "fst (algo_root_isRegionValid E rl addr 0 s) = -1"
    using lookup_not_found [OF nf] by simp
  show "algo_root_erase_all E rl addr s =
        Some (0, DFUDEBUG E ''eraseall_region invalid: %p %d\<newline>'' [addr, -1]
                   (snd (algo_root_isRegionValid E rl addr 0 s)))"
    using idx by (simp add: algo_root_erase_all_def split_def)
  show "algo_root_close E rl addr s =
        Some (False, DFUDEBUG E ''close_region invalid: %p\<newline>'' [addr]
                       (snd (algo_root_isRegionValid E rl addr 0 s)))"
    using nf by (simp add: algo_root_close_def split_def)
  show "snd (algo_root_isRegionValid E rl addr 0 s) =
        DFUDEBUG E ''Op on invalid region address/size: %p/%p %d\<newline>'' [addr, 0, -1] s"
    using lookup_not_found [OF nf] by simp
next
  assume f: "0 \<le> fst (algo_root_isRegionValid E rl addr sz s)"
  note lookup_found_silent [OF f, simp]
  show "algo_root_erase_region E rl addr sz s =
        algo_erase_region
          (pprogalgos (rl ! nat (fst (algo_root_isRegionValid E rl addr sz s)))) addr sz s"
    using f by (simp add: algo_root_erase_region_def split_def)
  show "algo_root_write E rl buff addr sz s =
        algo_write
          (pprogalgos (rl ! nat (fst (algo_root_isRegionValid E rl addr sz s)))) buff addr sz s"
    using f by (simp add: algo_root_write_def split_def)
  show "algo_root_read E rl buff addr sz s =
        algo_read
          (pprogalgos (rl ! nat (fst (algo_root_isRegionValid E rl addr sz s)))) buff addr sz s"
    using f by (simp add: algo_root_read_def split_def)
next
  assume f: "0 \<le> fst (algo_root_isRegionValid E rl addr 0 s)"
  note lookup_found_silent [OF f, simp]
  show "algo_root_erase_all E rl addr s =
        algo_erase_all (pprogalgos (rl ! nat (fst (algo_root_isRegionValid E rl addr 0 s))))
          (region_addr (rl ! nat (fst (algo_root_isRegionValid E rl addr 0 s))))
          (region_size (rl ! nat (fst (algo_root_isRegionValid E rl addr 0 s)))) s"
    using f by (simp add: algo_root_erase_all_def split_def Let_def)
  show "algo_root_close E rl addr s =
        map_option (Pair True)
          (algo_close (pprogalgos (rl ! nat (fst (algo_root_isRegionValid E rl addr 0 s)))) addr s)"
    using f by (simp add: algo_root_close_def split_def Let_def split: option.splits)
qed

theorem root_dispatch_witness:
  "fst (algo_root_isRegionValid lpc1857 lpc1857_registry 0x30000000 16 boot_state) < 0 \<and>
   fst (algo_root_isRegionValid lpc1857 lpc1857_registry 0x30000000 0 boot_state) < 0 \<and>
   algo_root_read lpc1857 lpc1857_registry 0x10083000 0x30000000 16 boot_state =
     Some (0, DFUDEBUG lpc1857 ''read_region invalid: %p:%p\<newline>'' [0x30000000, 16]
                (DFUDEBUG lpc1857 ''Op on invalid region address/size: %p/%p %d\<newline>''
                   [0x30000000, 16, -1] boot_state)) \<and>
   algo_root_close lpc1857 lpc1857_registry 0x30000000 boot_state =
     Some (False, DFUDEBUG lpc1857 ''close_region invalid: %p\<newline>'' [0x30000000]
                    (DFUDEBUG lpc1857 ''Op on invalid region address/size: %p/%p %d\<newline>''
                       [0x30000000, 0, -1] boot_state)) \<and>
   0 \<le> fst (algo_root_isRegionValid lpc1857 lpc1857_registry 0x20040000 16 boot_state) \<and>
   0 \<le> fst (algo_root_isRegionValid lpc1857 lpc1857_registry 0x20040000 0 boot_state) \<and>
   algo_root_read lpc1857 lpc1857_registry 0x10083000 0x20040000 16 boot_state =
     progalgo_inteeprom_read lpc1857 0x10083000 0x20040000 16 boot_state \<and>
   algo_root_close lpc1857 lpc1857_registry 0x20040000 boot_state = Some (True, boot_state)"
proof -
  have nf: "fst (algo_root_isRegionValid lpc1857 lpc1857_registry 0x30000000 16 boot_state) < 0"
    "fst (algo_root_isRegionValid lpc1857 lpc1857_registry 0x30000000 0 boot_state) < 0"
    by (simp_all add: lookup_eval isRegionValid_loop_step region_match_def lpc1857_registry_def)
  have f: "fst (algo_root_isRegionValid lpc1857 lpc1857_registry 0x20040000 16 boot_state) = 1"
    "fst (algo_root_isRegionValid lpc1857 lpc1857_registry 0x20040000 0 boot_state) = 1"
    by (simp_all add: lookup_eval isRegionValid_loop_step region_match_def lpc1857_registry_def)
  have eeprom: "pprogalgos (lpc1857_registry ! Suc 0) = inteeprom_palgos lpc1857 lpc1857_regions"
    by (simp add: lpc1857_registry_def)
  show ?thesis
    using nf f
      root_dispatch [of lpc1857 lpc1857_registry "0x30000000" 16 boot_state "0x10083000"]
      root_dispatch [of lpc1857 lpc1857_registry "0x20040000" 16 boot_state "0x10083000"]
    by (simp add: eeprom inteeprom_palgos_def progalgo_inteeprom_close_def)
qed

section \<open>What a diagnostic leaves alone\<close>

text \<open>\<open>usbDebug\<close> writes the text buffer and the write index and nothing else.\<close>

lemma usbDebug_loop_fields [simp]:
  "currStatus (usbDebug_loop msg s) = currStatus s"
  "hostCmd (usbDebug_loop msg s) = hostCmd s"
  "currCmdAddr (usbDebug_loop msg s) = currCmdAddr s"
  "currCmdSize (usbDebug_loop msg s) = currCmdSize s"
  "currentRegion (usbDebug_loop msg s) = currentRegion s"
  "buffer_size (usbDebug_loop msg s) = buffer_size s"
  "currRegionData (usbDebug_loop msg s) = currRegionData s"
  "usbStrOut (usbDebug_loop msg s) = usbStrOut s"
  "verifyDebug (usbDebug_loop msg s) = verifyDebug s"
  "dfuIn (usbDebug_loop msg s) = dfuIn s"
  "inPktSize (usbDebug_loop msg s) = inPktSize s"
  "inPktSizeIdx (usbDebug_loop msg s) = inPktSizeIdx s"
  "outPktSizeIdx (usbDebug_loop msg s) = outPktSizeIdx s"
  "progSize (usbDebug_loop msg s) = progSize s"
  "dfu_done_algo (usbDebug_loop msg s) = dfu_done_algo s"
  "mem (usbDebug_loop msg s) = mem s"
  "iap_calls (usbDebug_loop msg s) = iap_calls s"
  by (induction msg arbitrary: s) simp_all

lemma DFUDEBUG_fields [simp]:
  "currStatus (DFUDEBUG E fmt args s) = currStatus s"
  "hostCmd (DFUDEBUG E fmt args s) = hostCmd s"
  "currCmdAddr (DFUDEBUG E fmt args s) = currCmdAddr s"
  "currCmdSize (DFUDEBUG E fmt args s) = currCmdSize s"
  "currentRegion (DFUDEBUG E fmt args s) = currentRegion s"
  "buffer_size (DFUDEBUG E fmt args s) = buffer_size s"
  "currRegionData (DFUDEBUG E fmt args s) = currRegionData s"
  "usbStrOut (DFUDEBUG E fmt args s) = usbStrOut s"
  "verifyDebug (DFUDEBUG E fmt args s) = verifyDebug s"
  "dfuIn (DFUDEBUG E fmt args s) = dfuIn s"
  "inPktSize (DFUDEBUG E fmt args s) = inPktSize s"
  "inPktSizeIdx (DFUDEBUG E fmt args s) = inPktSizeIdx s"
  "outPktSizeIdx (DFUDEBUG E fmt args s) = outPktSizeIdx s"
  "progSize (DFUDEBUG E fmt args s) = progSize s"
  "dfu_done_algo (DFUDEBUG E fmt args s) = dfu_done_algo s"
  "mem (DFUDEBUG E fmt args s) = mem s"
  "iap_calls (DFUDEBUG E fmt args s) = iap_calls s"
  by (simp_all add: DFUDEBUG_def usbDebug_def)

lemma DFUDEBUG_quiet: "verifyDebug s = False \<Longrightarrow> DFUDEBUG E f a s = s"
  by (simp add: DFUDEBUG_def usbDebug_def)

section \<open>Evaluation on the concrete device\<close>

lemma lpc1857_simps:
  "sprintf lpc1857 = (\<lambda>fmt args. fmt)"
  "iap_rom lpc1857 = (\<lambda>command m. (0, m))"
  "IAP_CMD_SUCCESS lpc1857 = 0"
  "SystemCoreClock lpc1857 = 180000000"
  "EEPROM_PAGE_SIZE lpc1857 = 128"
  "EEPROM_ADDRESS lpc1857 = (\<lambda>page offs. 0x20040000 + 128 * page + offs)"
  "dfuIn_addr lpc1857 = 0x10081000"
  "dfuProgBuff_addr lpc1857 = 0x10083000"
  by (simp_all add: lpc1857_def)

lemma lpc1857_registry_simps:
  "pprogalgos (lpc1857_registry ! 0) = intflash_palgos lpc1857 lpc1857_regions"
  "pprogalgos (lpc1857_registry ! Suc 0) = inteeprom_palgos lpc1857 lpc1857_regions"
  "region_addr (lpc1857_registry ! 0) = 0x1A000000"
  "region_size (lpc1857_registry ! 0) = 0x80000"
  "region_addr (lpc1857_registry ! Suc 0) = 0x20040000"
  "region_size (lpc1857_registry ! Suc 0) = 0x4000"
  "length lpc1857_registry = 2"
  by (simp_all add: lpc1857_registry_def)

lemma lookup_flash_page: "algo_root_isRegionValid lpc1857 lpc1857_registry 0x1A000000 512 s = (0, s)"
  by (simp add: algo_root_isRegionValid_def Let_def isRegionValid_loop_step region_match_def lpc1857_registry_def)

lemma lookup_flash_base: "algo_root_isRegionValid lpc1857 lpc1857_regions 0x1A000000 0 s = (0, s)"
  by (simp add: algo_root_isRegionValid_def Let_def isRegionValid_loop_step region_match_def lpc1857_regions_def)

lemma progaddrvalid_first_page: "progalgo_iflash_progaddrvalid lpc1857 lpc1857_regions 0x1A000000 512 s = (512, s)"
  by (simp add: progalgo_iflash_progaddrvalid_def progalgo_iflash_findbank_def lookup_flash_base findbank_loop_eval PAGE_SIZE_def)

lemma secstart_first_page: "find_secstart_loop 0x1A000000 0x1A000000 0 0 = (0, 0, 1)"
  by (simp add: find_secstart_loop.simps sectorinfo_def regstart_def regend_def)

lemma secend_first_page: "find_secend_loop 0x1A000000 0x1A0001FF 0 1 = (0, 0, 0)"
  by (simp add: find_secend_loop.simps sectorinfo_def regstart_def regend_def)

lemma sectorrange_first_page: "progalgo_iflash_find_sectorrange lpc1857 lpc1857_regions 0x1A000000 512 s = Some (512, 0, 0, 0, 0, s)"
  by (simp add: progalgo_iflash_find_sectorrange_def progalgo_iflash_findbank_def lookup_flash_base findbank_loop_eval pregions_def secstart_first_page secend_first_page)

lemma intflash_write_first_page: "progalgo_intflash_write lpc1857 lpc1857_regions 0x10083000 0x1A000000 512 prog_state = 
   Some (512, prog_state\<lparr>iap_calls := [[50, 0, 0, 0], [51, 0x1A000000, 0x10083000, 512, 180000], [56, 0x1A000000, 0x10083000, 512]]\<rparr>)"
  by (simp add: progalgo_intflash_write_def DFUDEBUG_quiet prog_state_def boot_state_def PAGE_SIZE_def progaddrvalid_first_page sectorrange_first_page
     progalgo_iflash_prepwrite_def iap_entry_def lpc1857_simps IAP_PREP_SECS_def IAP_RAM_TO_FLASH_def IAP_COMPARE_def CPUCLOCKFRQINKHZ_def)

section \<open>The background loop while programming\<close>

text \<open>
  C3. In state \<open>DFU_OPSTS_PROG\<close>: a staged chunk size \<open>progSize\<close> of 0 leads to
  \<open>DFU_OPSTS_IDLE\<close>. Otherwise \<open>algo_root_write\<close> is called with the staging buffer, the
  target address and \<open>progSize\<close>; a return value other than \<open>progSize\<close> leads to
  \<open>DFU_OPSTS_PROGER\<close>; after a successful write, a chunk below \<open>buffer_size\<close> or a
  remaining size \<open>currCmdSize\<close> of 0 leads to \<open>DFU_OPSTS_IDLE\<close>, and anything else to
  \<open>DFU_OPSTS_PROG_STREAM\<close> with the target address advanced by the chunk size.
\<close>

theorem programming_step:
  assumes "currStatus s = DFU_OPSTS_PROG"
  shows "(progSize s = 0 \<longrightarrow>
            dfu_util_process_step E rl s = Running (s\<lparr>currStatus := DFU_OPSTS_IDLE\<rparr>)) \<and>
         (progSize s \<noteq> 0 \<longrightarrow>
            (\<forall>r s1. algo_root_write E rl (dfuProgBuff_addr E) (currCmdAddr s) (progSize s) s
                       = Some (r, s1) \<longrightarrow>
               dfu_util_process_step E rl s =
                 Running (if r \<noteq> progSize s1 then s1\<lparr>currStatus := DFU_OPSTS_PROGER\<rparr>
                          else if progSize s1 < buffer_size s1 \<or> currCmdSize s1 = 0
                          then s1\<lparr>currStatus := DFU_OPSTS_IDLE\<rparr>
                          else s1\<lparr>currStatus := DFU_OPSTS_PROG_STREAM,
                                  currCmdAddr := currCmdAddr s1 + progSize s1\<rparr>)))"
  using assms by (auto simp: dfu_util_process_step_def)

theorem programming_step_witness:
  "currStatus (boot_state\<lparr>currStatus := DFU_OPSTS_PROG\<rparr>) = DFU_OPSTS_PROG \<and>
   progSize (boot_state\<lparr>currStatus := DFU_OPSTS_PROG\<rparr>) = 0 \<and>
   dfu_util_process_step lpc1857 lpc1857_registry (boot_state\<lparr>currStatus := DFU_OPSTS_PROG\<rparr>)
     = Running boot_state \<and>
   currStatus prog_state = DFU_OPSTS_PROG \<and>
   progSize prog_state \<noteq> 0 \<and>
   algo_root_write lpc1857 lpc1857_registry (dfuProgBuff_addr lpc1857) (currCmdAddr prog_state)
       (progSize prog_state) prog_state
     = Some (512, prog_state\<lparr>iap_calls :=
         [[50, 0, 0, 0], [51, 0x1A000000, 0x10083000, 512, 180000],
          [56, 0x1A000000, 0x10083000, 512]]\<rparr>) \<and>
   dfu_util_process_step lpc1857 lpc1857_registry prog_state
     = Running (prog_state\<lparr>iap_calls :=
         [[50, 0, 0, 0], [51, 0x1A000000, 0x10083000, 512, 180000],
          [56, 0x1A000000, 0x10083000, 512]],
        currStatus := DFU_OPSTS_PROG_STREAM, currCmdAddr := 0x1A000200\<rparr>)"
proof -
  have a: "currStatus (boot_state\<lparr>currStatus := DFU_OPSTS_PROG\<rparr>) = DFU_OPSTS_PROG"
    and b: "progSize (boot_state\<lparr>currStatus := DFU_OPSTS_PROG\<rparr>) = 0"
    by (simp_all add: boot_state_def)
  have c: "currStatus prog_state = DFU_OPSTS_PROG" and d: "progSize prog_state \<noteq> 0"
    by (simp_all add: prog_state_def)
  have f: "currCmdAddr prog_state = 0x1A000000" "progSize prog_state = 512"
    by (simp_all add: prog_state_def)
  have w: "algo_root_write lpc1857 lpc1857_registry (dfuProgBuff_addr lpc1857)
       (currCmdAddr prog_state) (progSize prog_state) prog_state
     = Some (512, prog_state\<lparr>iap_calls :=
         [[50, 0, 0, 0], [51, 0x1A000000, 0x10083000, 512, 180000],
          [56, 0x1A000000, 0x10083000, 512]]\<rparr>)"
    by (simp add: algo_root_write_def f lookup_flash_page intflash_write_first_page lpc1857_registry_simps
        intflash_palgos_def lpc1857_simps)
  have idle: "boot_state\<lparr>currStatus := DFU_OPSTS_IDLE\<rparr> = boot_state"
    by (simp add: boot_state_def)
  show ?thesis
    using a b c d w programming_step [OF a, of lpc1857 lpc1857_registry]
      programming_step [OF c, of lpc1857 lpc1857_registry]
    by (simp add: idle prog_state_def)
qed

section \<open>Readback\<close>



lemma usbDFUReturnStatus_fields [simp]:
  "currStatus (snd (usbDFUReturnStatus s)) = currStatus s"
  "currCmdAddr (snd (usbDFUReturnStatus s)) = currCmdAddr s"
  "currCmdSize (snd (usbDFUReturnStatus s)) = currCmdSize s"
  by (simp_all add: usbDFUReturnStatus_def usbDFUBuildStatus_def usbDebugFill_def split_def Let_def)















section \<open>OUT packets while streaming\<close>

lemma lookup_flash_bank:
  "algo_root_isRegionValid lpc1857 lpc1857_registry 0x1A000000 0x80000 s = (0, s)"
  by (simp add: algo_root_isRegionValid_def Let_def isRegionValid_loop_step region_match_def
      lpc1857_registry_simps)

lemma flash_bank_buffer: "region_buffer_size (lpc1857_registry ! 0) = 512"
  by (simp add: lpc1857_registry_def)

lemma session_started:
  "command_packet lpc1857 lpc1857_registry start_session_hdr boot_state =
     boot_state\<lparr>hostCmd := DFU_HOSTCMD_STARTNEWSESS, currCmdAddr := 0x1A000000,
       currCmdSize := 0x80000, buffer_size := 512, currRegionData := Some 0,
       dfuIn := start_session_hdr\<rparr>"
  by (simp add: command_packet_def dfu_wr_def dfu_wr_command_def dfu_wr_switch_def
      checkMagicHeader_def Let_def boot_state_def start_session_hdr_def
      DFU_HOSTCMD_PROGRAM_def DFU_HOSTCMD_SETDEBUG_def DFU_HOSTCMD_PROGOTP_def
      DFU_HOSTCMD_READOTP_def DFU_HOSTCMD_STARTNEWSESS_def
      usbDFUStartSession_def lookup_flash_bank flash_bank_buffer lpc1857_registry_simps)

lemma program_started:
  assumes "currStatus s \<noteq> DFU_OPSTS_PROG_STREAM"
  shows "command_packet lpc1857 lpc1857_registry program_hdr s =
     s\<lparr>dfuIn := program_hdr, currStatus := DFU_OPSTS_PROG_STREAM,
       hostCmd := DFU_HOSTCMD_PROGRAM, currCmdAddr := 0x1A000000, currCmdSize := 300,
       outPktSizeIdx := 0\<rparr>"
  using assms
  by (simp add: command_packet_def dfu_wr_def dfu_wr_command_def program_hdr_def
      dfu_wr_switch_def checkMagicHeader_def Let_def usbDFUProgRegion_def)

lemma first_data_packet:
  assumes "currStatus s = DFU_OPSTS_PROG_STREAM" and "outPktSizeIdx s = 0"
    and "buffer_size s = 512" and "currCmdSize s = 300"
  shows "data_packet lpc1857 lpc1857_registry 100 s = s\<lparr>outPktSizeIdx := 100\<rparr>"
  using assms by (simp add: data_packet_def dfu_wr_def)

lemma boot_state_fields:
  "currStatus boot_state = DFU_OPSTS_IDLE" "progSize boot_state = 0"
  by (simp_all add: boot_state_def)

lemma streaming_state_fields:
  "currStatus streaming_state = DFU_OPSTS_PROG_STREAM" "outPktSizeIdx streaming_state = 100"
  "buffer_size streaming_state = 512" "currCmdSize streaming_state = 300"
  "progSize streaming_state = 0"
  by (simp_all add: streaming_state_def session_started program_started first_data_packet
      boot_state_fields)

text \<open>
  C2, as stated, fails: with 100 bytes of a 300-byte transfer staged in
  \<open>DFU_OPSTS_PROG_STREAM\<close>, a zero-length OUT packet leaves the state
  \<open>DFU_OPSTS_PROG_STREAM\<close>, does not hand the 100 staged bytes to the background loop
  (\<open>progSize\<close> is not set) and resets the staging index to 0.
\<close>

theorem zero_length_packet_keeps_streaming:
  "currStatus (snd (snd (dfu_wr lpc1857 lpc1857_registry 0 0x10083064 0 streaming_state)))
     = DFU_OPSTS_PROG_STREAM \<and>
   currStatus (snd (snd (dfu_wr lpc1857 lpc1857_registry 0 0x10083064 0 streaming_state)))
     \<noteq> DFU_OPSTS_PROG \<and>
   outPktSizeIdx streaming_state = 100 \<and>
   progSize (snd (snd (dfu_wr lpc1857 lpc1857_registry 0 0x10083064 0 streaming_state))) \<noteq> 100 \<and>
   outPktSizeIdx (snd (snd (dfu_wr lpc1857 lpc1857_registry 0 0x10083064 0 streaming_state))) = 0"
  by (simp add: dfu_wr_def streaming_state_fields)

text \<open>
  C2, as amended. In \<open>DFU_OPSTS_PROG_STREAM\<close> a zero-length OUT packet only resets the
  staging: the index becomes 0, the buffer pointer returns to the start of the program
  buffer, and state, \<open>progSize\<close> and \<open>currCmdSize\<close> stay as they are. A packet of
  non-zero length after which the staged count equals \<open>buffer_size\<close> or \<open>currCmdSize\<close>
  leads to \<open>DFU_OPSTS_PROG\<close> with the staged count in \<open>progSize\<close> and taken off
  \<open>currCmdSize\<close>; any other packet is appended and the state stays.
\<close>

theorem streaming_packets:
  assumes "currStatus s = DFU_OPSTS_PROG_STREAM"
  shows "dfu_wr E rl block_num pBuff 0 s =
           (DFU_STATUS_OK, dfuProgBuff_addr E, s\<lparr>outPktSizeIdx := 0\<rparr>) \<and>
         (len \<noteq> 0 \<and> (outPktSizeIdx s + len = buffer_size s \<or>
                      outPktSizeIdx s + len = currCmdSize s) \<longrightarrow>
            dfu_wr E rl block_num pBuff len s =
              (DFU_STATUS_OK, dfuIn_addr E,
               s\<lparr>outPktSizeIdx := 0,
                 currStatus := DFU_OPSTS_PROG,
                 progSize := outPktSizeIdx s + len,
                 currCmdSize := currCmdSize s - (outPktSizeIdx s + len)\<rparr>)) \<and>
         (len \<noteq> 0 \<and> outPktSizeIdx s + len \<noteq> buffer_size s \<and>
          outPktSizeIdx s + len \<noteq> currCmdSize s \<longrightarrow>
            dfu_wr E rl block_num pBuff len s =
              (DFU_STATUS_OK, pBuff + len, s\<lparr>outPktSizeIdx := outPktSizeIdx s + len\<rparr>))"
  using assms by (simp add: dfu_wr_def)

theorem streaming_packets_witness:
  "currStatus streaming_state = DFU_OPSTS_PROG_STREAM \<and>
   dfu_wr lpc1857 lpc1857_registry 0 0x10083064 0 streaming_state =
     (DFU_STATUS_OK, 0x10083000, streaming_state\<lparr>outPktSizeIdx := 0\<rparr>) \<and>
   dfu_wr lpc1857 lpc1857_registry 0 0x10083064 200 streaming_state =
     (DFU_STATUS_OK, 0x10081000,
      streaming_state\<lparr>outPktSizeIdx := 0, currStatus := DFU_OPSTS_PROG, progSize := 300,
        currCmdSize := 0\<rparr>) \<and>
   dfu_wr lpc1857 lpc1857_registry 0 0x10083064 64 streaming_state =
     (DFU_STATUS_OK, 0x100830A4, streaming_state\<lparr>outPktSizeIdx := 164\<rparr>)"
proof -
  have f: "currStatus streaming_state = DFU_OPSTS_PROG_STREAM"
    "outPktSizeIdx streaming_state = 100" "buffer_size streaming_state = 512"
    "currCmdSize streaming_state = 300"
    by (simp_all add: streaming_state_fields)
  show ?thesis
    using streaming_packets [OF f(1), of lpc1857 lpc1857_registry 0 "0x10083064" 200]
      streaming_packets [OF f(1), of lpc1857 lpc1857_registry 0 "0x10083064" 64]
    by (simp add: f lpc1857_simps)
qed

section \<open>Command packets with a foreign magic value\<close>

lemma usbDebug_loop_queue:
  "usbBuff t = usbBuff s \<Longrightarrow> usbStrIn t = usbStrIn s \<Longrightarrow>
   usbBuff (usbDebug_loop msg t) = usbBuff (usbDebug_loop msg s) \<and>
   usbStrIn (usbDebug_loop msg t) = usbStrIn (usbDebug_loop msg s)"
  by (induction msg arbitrary: s t) simp_all



lemma usbDebug_loop_commute:
  "usbDebug_loop msg (s\<lparr>currStatus := a1\<rparr>) = (usbDebug_loop msg s)\<lparr>currStatus := a1\<rparr>"
  "usbDebug_loop msg (s\<lparr>hostCmd := a2\<rparr>) = (usbDebug_loop msg s)\<lparr>hostCmd := a2\<rparr>"
  "usbDebug_loop msg (s\<lparr>dfuIn := a3\<rparr>) = (usbDebug_loop msg s)\<lparr>dfuIn := a3\<rparr>"
  "usbDebug_loop msg (s\<lparr>outPktSizeIdx := a4\<rparr>) = (usbDebug_loop msg s)\<lparr>outPktSizeIdx := a4\<rparr>"
proof -
  show "usbDebug_loop msg (s\<lparr>currStatus := a1\<rparr>) = (usbDebug_loop msg s)\<lparr>currStatus := a1\<rparr>"
    using usbDebug_loop_queue [of "s\<lparr>currStatus := a1\<rparr>" s msg]
    by (intro dfu_state.equality) simp_all
  show "usbDebug_loop msg (s\<lparr>hostCmd := a2\<rparr>) = (usbDebug_loop msg s)\<lparr>hostCmd := a2\<rparr>"
    using usbDebug_loop_queue [of "s\<lparr>hostCmd := a2\<rparr>" s msg]
    by (intro dfu_state.equality) simp_all
  show "usbDebug_loop msg (s\<lparr>dfuIn := a3\<rparr>) = (usbDebug_loop msg s)\<lparr>dfuIn := a3\<rparr>"
    using usbDebug_loop_queue [of "s\<lparr>dfuIn := a3\<rparr>" s msg]
    by (intro dfu_state.equality) simp_all
  show "usbDebug_loop msg (s\<lparr>outPktSizeIdx := a4\<rparr>) = (usbDebug_loop msg s)\<lparr>outPktSizeIdx := a4\<rparr>"
    using usbDebug_loop_queue [of "s\<lparr>outPktSizeIdx := a4\<rparr>" s msg]
    by (intro dfu_state.equality) simp_all
qed

lemma DFUDEBUG_commute:
  "DFUDEBUG E fmt args (s\<lparr>currStatus := a1\<rparr>) = (DFUDEBUG E fmt args s)\<lparr>currStatus := a1\<rparr>"
  "DFUDEBUG E fmt args (s\<lparr>hostCmd := a2\<rparr>) = (DFUDEBUG E fmt args s)\<lparr>hostCmd := a2\<rparr>"
  "DFUDEBUG E fmt args (s\<lparr>dfuIn := a3\<rparr>) = (DFUDEBUG E fmt args s)\<lparr>dfuIn := a3\<rparr>"
  "DFUDEBUG E fmt args (s\<lparr>outPktSizeIdx := a4\<rparr>) = (DFUDEBUG E fmt args s)\<lparr>outPktSizeIdx := a4\<rparr>"
  by (simp_all add: DFUDEBUG_def usbDebug_def usbDebug_loop_commute)


lemma handlers_header:
  "usbDFUSetVerbose addr (t\<lparr>dfuIn := d\<rparr>) = (usbDFUSetVerbose addr t)\<lparr>dfuIn := d\<rparr>"
  "usbDFUEraseAll (t\<lparr>dfuIn := d\<rparr>) = (usbDFUEraseAll t)\<lparr>dfuIn := d\<rparr>"
  "usbDFUEraseRegion addr sz (t\<lparr>dfuIn := d\<rparr>) = (usbDFUEraseRegion addr sz t)\<lparr>dfuIn := d\<rparr>"
  "usbDFUProgRegion addr sz (t\<lparr>dfuIn := d\<rparr>) = (usbDFUProgRegion addr sz t)\<lparr>dfuIn := d\<rparr>"
  "usbDFUReadRegion addr sz (t\<lparr>dfuIn := d\<rparr>) = (usbDFUReadRegion addr sz t)\<lparr>dfuIn := d\<rparr>"
  "usbDFUReset (t\<lparr>dfuIn := d\<rparr>) = (usbDFUReset t)\<lparr>dfuIn := d\<rparr>"
  "usbDFUExecute addr (t\<lparr>dfuIn := d\<rparr>) = (usbDFUExecute addr t)\<lparr>dfuIn := d\<rparr>"
  by (simp_all add: usbDFUSetVerbose_def usbDFUEraseAll_def usbDFUEraseRegion_def
      usbDFUProgRegion_def usbDFUReadRegion_def usbDFUReset_def usbDFUExecute_def Let_def)

lemma start_session_header:
  "usbDFUStartSession E rl addr sz (t\<lparr>dfuIn := d\<rparr>) =
     (usbDFUStartSession E rl addr sz t)\<lparr>dfuIn := d\<rparr>"
  by (simp add: usbDFUStartSession_def algo_root_isRegionValid_def Let_def DFUDEBUG_commute)

lemma switch_header:
  "dfu_wr_switch E rl cmd addr sz (t\<lparr>dfuIn := d\<rparr>) =
     (fst (dfu_wr_switch E rl cmd addr sz t), fst (snd (dfu_wr_switch E rl cmd addr sz t)),
      (snd (snd (dfu_wr_switch E rl cmd addr sz t)))\<lparr>dfuIn := d\<rparr>)"
  by (simp add: dfu_wr_switch_def Let_def handlers_header start_session_header DFUDEBUG_commute)


lemma start_session_dfuIn: "dfuIn (usbDFUStartSession E rl addr sz t) = dfuIn t"
  by (simp add: usbDFUStartSession_def algo_root_isRegionValid_def Let_def)

lemma switch_dfuIn: "dfuIn (snd (snd (dfu_wr_switch E rl cmd addr sz t))) = dfuIn t"
  by (simp add: dfu_wr_switch_def Let_def start_session_dfuIn usbDFUSetVerbose_def
      usbDFUEraseAll_def usbDFUEraseRegion_def usbDFUProgRegion_def usbDFUReadRegion_def
      usbDFUReset_def usbDFUExecute_def)

lemma dfu_wr_bad_magic:
  assumes "currStatus s \<noteq> DFU_OPSTS_PROG_STREAM" and "len \<noteq> 0"
    and "hdr_magic (dfuIn s) \<noteq> DFUPROG_VALIDVAL"
  shows "dfu_wr E rl b p len s =
           dfu_wr_switch E rl (hdr_hostCmd (dfuIn s)) (hdr_addr (dfuIn s)) (hdr_size (dfuIn s))
             (DFUDEBUG E version_warning [] (s\<lparr>outPktSizeIdx := outPktSizeIdx s + len\<rparr>))"
  using assms by (simp add: dfu_wr_def dfu_wr_command_def checkMagicHeader_def Let_def)

lemma dfu_wr_good_magic:
  assumes "currStatus s \<noteq> DFU_OPSTS_PROG_STREAM" and "len \<noteq> 0"
    and "hdr_magic (dfuIn s) = DFUPROG_VALIDVAL"
  shows "dfu_wr E rl b p len s =
           dfu_wr_switch E rl (hdr_hostCmd (dfuIn s)) (hdr_addr (dfuIn s)) (hdr_size (dfuIn s))
             (s\<lparr>outPktSizeIdx := outPktSizeIdx s + len\<rparr>)"
  using assms by (simp add: dfu_wr_def dfu_wr_command_def checkMagicHeader_def Let_def)

lemma dfu_wr_warning_first:
  assumes ns: "currStatus s \<noteq> DFU_OPSTS_PROG_STREAM" and len: "len \<noteq> 0"
    and bad: "hdr_magic (dfuIn s) \<noteq> DFUPROG_VALIDVAL"
  shows "dfu_wr E rl b p len s =
           (fst (dfu_wr E rl b p len
                   (usbDebug (sprintf E version_warning []) (with_magic DFUPROG_VALIDVAL s))),
            fst (snd (dfu_wr E rl b p len
                   (usbDebug (sprintf E version_warning []) (with_magic DFUPROG_VALIDVAL s)))),
            with_magic (hdr_magic (dfuIn s))
              (snd (snd (dfu_wr E rl b p len
                   (usbDebug (sprintf E version_warning []) (with_magic DFUPROG_VALIDVAL s))))))"
proof -
  define T where "T = DFUDEBUG E version_warning [] (s\<lparr>outPktSizeIdx := outPktSizeIdx s + len\<rparr>)"
  define W where "W = usbDebug (sprintf E version_warning []) (with_magic DFUPROG_VALIDVAL s)"
  define d where "d = (dfuIn s)\<lparr>hdr_magic := DFUPROG_VALIDVAL\<rparr>"
  have W: "W = (DFUDEBUG E version_warning [] s)\<lparr>dfuIn := d\<rparr>"
    by (simp add: W_def d_def with_magic_def DFUDEBUG_def [symmetric] DFUDEBUG_commute)
  have W1: "W\<lparr>outPktSizeIdx := outPktSizeIdx W + len\<rparr> = T\<lparr>dfuIn := d\<rparr>"
    by (simp add: W T_def DFUDEBUG_commute)
  have Wf: "currStatus W \<noteq> DFU_OPSTS_PROG_STREAM" "hdr_magic (dfuIn W) = DFUPROG_VALIDVAL"
    "hdr_hostCmd (dfuIn W) = hdr_hostCmd (dfuIn s)" "hdr_addr (dfuIn W) = hdr_addr (dfuIn s)"
    "hdr_size (dfuIn W) = hdr_size (dfuIn s)"
    using ns by (simp_all add: W d_def)
  have good: "dfu_wr E rl b p len W =
      dfu_wr_switch E rl (hdr_hostCmd (dfuIn s)) (hdr_addr (dfuIn s)) (hdr_size (dfuIn s))
        (T\<lparr>dfuIn := d\<rparr>)"
    using dfu_wr_good_magic [OF Wf(1) len Wf(2), of E rl b p] by (simp add: Wf W1)
  have restore: "with_magic (hdr_magic (dfuIn s)) (R\<lparr>dfuIn := d\<rparr>) = R" if "dfuIn R = dfuIn s" for R
    using that by (simp add: with_magic_def d_def)
  have "dfuIn T = dfuIn s"
    by (simp add: T_def)
  then have R: "dfuIn (snd (snd (dfu_wr_switch E rl (hdr_hostCmd (dfuIn s)) (hdr_addr (dfuIn s))
      (hdr_size (dfuIn s)) T))) = dfuIn s"
    by (simp add: switch_dfuIn)
  show ?thesis
    unfolding W_def [symmetric] good dfu_wr_bad_magic [OF ns len bad] T_def [symmetric]
    by (simp add: switch_header restore [OF R])
qed


lemma session_view_DFUDEBUG [simp]: "session_view (DFUDEBUG E fmt args s) = session_view s"
  by (simp add: session_view_def)

lemma session_view_header [simp]: "session_view (s\<lparr>dfuIn := d\<rparr>) = session_view s"
  by (simp add: session_view_def)

lemma start_session_view:
  assumes "session_view t = session_view t'"
  shows "session_view (usbDFUStartSession E rl addr sz t) =
         session_view (usbDFUStartSession E rl addr sz t')"
  using assms
  by (simp add: usbDFUStartSession_def algo_root_isRegionValid_def Let_def session_view_def)

lemma switch_view:
  assumes "session_view t = session_view t'"
  shows "fst (dfu_wr_switch E rl cmd addr sz t) = fst (dfu_wr_switch E rl cmd addr sz t') \<and>
         fst (snd (dfu_wr_switch E rl cmd addr sz t)) = fst (snd (dfu_wr_switch E rl cmd addr sz t')) \<and>
         session_view (snd (snd (dfu_wr_switch E rl cmd addr sz t))) =
           session_view (snd (snd (dfu_wr_switch E rl cmd addr sz t')))"
  using assms start_session_view [OF assms, of E rl addr sz]
  by (simp add: dfu_wr_switch_def Let_def session_view_def usbDFUSetVerbose_def
      usbDFUEraseAll_def usbDFUEraseRegion_def usbDFUProgRegion_def usbDFUReadRegion_def
      usbDFUReset_def usbDFUExecute_def)

lemma quiet_state_eq:
  "quiet_state = boot_state\<lparr>hostCmd := DFU_HOSTCMD_SETDEBUG, verifyDebug := False,
     dfuIn := set_quiet_hdr\<rparr>"
  by (simp add: quiet_state_def command_packet_def dfu_wr_def dfu_wr_command_def
      dfu_wr_switch_def checkMagicHeader_def Let_def boot_state_def set_quiet_hdr_def
      usbDFUSetVerbose_def DFU_HOSTCMD_PROGRAM_def DFU_HOSTCMD_SETDEBUG_def)

text \<open>
  C7, as stated, fails in quiet mode. After start-up the host switches to quiet mode and
  then sends a command packet with a foreign magic value: the command is dispatched
  (here \<open>ERASE_REGION\<close> leads to \<open>DFU_OPSTS_ERASE_ST\<close>), but no warning is queued; text
  buffer and write index are as before, and the next status packet carries no text.
\<close>

theorem quiet_mode_drops_version_warning:
  "hdr_magic foreign_erase_hdr \<noteq> DFUPROG_VALIDVAL \<and>
   verifyDebug quiet_state = False \<and>
   currStatus (command_packet lpc1857 lpc1857_registry foreign_erase_hdr quiet_state)
     = DFU_OPSTS_ERASE_ST \<and>
   usbStrIn (command_packet lpc1857 lpc1857_registry foreign_erase_hdr quiet_state)
     = usbStrIn quiet_state \<and>
   usbBuff (command_packet lpc1857 lpc1857_registry foreign_erase_hdr quiet_state)
     = usbBuff quiet_state \<and>
   fst (usbDebugFill 64
     (command_packet lpc1857 lpc1857_registry foreign_erase_hdr quiet_state)) = 0"
  by (simp add: quiet_state_eq foreign_erase_hdr_def command_packet_def dfu_wr_def
      dfu_wr_command_def dfu_wr_switch_def checkMagicHeader_def Let_def boot_state_def
      DFUPROG_VALIDVAL_def DFU_HOSTCMD_ERASE_REGION_def
      DFU_HOSTCMD_PROGRAM_def DFU_HOSTCMD_SETDEBUG_def DFU_HOSTCMD_PROGOTP_def
      DFU_HOSTCMD_READOTP_def DFU_HOSTCMD_STARTNEWSESS_def DFU_HOSTCMD_ERASE_ALL_def
      usbDFUEraseRegion_def DFUDEBUG_def usbDebug_def usbDebugFill_def)

text \<open>
  C7, as amended. For a command packet (an OUT packet of non-zero length outside
  \<open>DFU_OPSTS_PROG_STREAM\<close>) whose magic field is not \<open>DFUPROG_VALIDVAL\<close>: \<open>dfu_wr\<close>
  returns \<open>DFU_STATUS_OK\<close>; buffer pointer and session are those the same packet with
  the right magic value gives; and the globals are those the packet with the right
  magic value gives after the version warning has been passed to \<open>usbDebug\<close>, which
  queues it in verbose mode and drops it in quiet mode.
\<close>

theorem magic_mismatch:
  assumes "currStatus s \<noteq> DFU_OPSTS_PROG_STREAM" and "len \<noteq> 0"
    and "hdr_magic (dfuIn s) \<noteq> DFUPROG_VALIDVAL"
  shows "fst (dfu_wr E rl b p len s) = DFU_STATUS_OK \<and>
         fst (snd (dfu_wr E rl b p len s)) =
           fst (snd (dfu_wr E rl b p len (with_magic DFUPROG_VALIDVAL s))) \<and>
         session_view (snd (snd (dfu_wr E rl b p len s))) =
           session_view (snd (snd (dfu_wr E rl b p len (with_magic DFUPROG_VALIDVAL s)))) \<and>
         snd (snd (dfu_wr E rl b p len s)) =
           with_magic (hdr_magic (dfuIn s))
             (snd (snd (dfu_wr E rl b p len
                (usbDebug (sprintf E version_warning []) (with_magic DFUPROG_VALIDVAL s)))))"
proof -
  let ?g = "with_magic DFUPROG_VALIDVAL s"
  have g: "currStatus ?g \<noteq> DFU_OPSTS_PROG_STREAM" "hdr_magic (dfuIn ?g) = DFUPROG_VALIDVAL"
    "hdr_hostCmd (dfuIn ?g) = hdr_hostCmd (dfuIn s)" "hdr_addr (dfuIn ?g) = hdr_addr (dfuIn s)"
    "hdr_size (dfuIn ?g) = hdr_size (dfuIn s)" "outPktSizeIdx ?g = outPktSizeIdx s"
    using assms(1) by (simp_all add: with_magic_def)
  have view: "session_view (DFUDEBUG E version_warning [] (s\<lparr>outPktSizeIdx := outPktSizeIdx s + len\<rparr>))
      = session_view (?g\<lparr>outPktSizeIdx := outPktSizeIdx s + len\<rparr>)"
    by (simp add: with_magic_def session_view_def)
  note sv = switch_view [OF view, of E rl "hdr_hostCmd (dfuIn s)" "hdr_addr (dfuIn s)"
      "hdr_size (dfuIn s)"]
  have bad: "dfu_wr E rl b p len s =
      dfu_wr_switch E rl (hdr_hostCmd (dfuIn s)) (hdr_addr (dfuIn s)) (hdr_size (dfuIn s))
        (DFUDEBUG E version_warning [] (s\<lparr>outPktSizeIdx := outPktSizeIdx s + len\<rparr>))"
    by (rule dfu_wr_bad_magic [OF assms])
  have good: "dfu_wr E rl b p len ?g =
      dfu_wr_switch E rl (hdr_hostCmd (dfuIn s)) (hdr_addr (dfuIn s)) (hdr_size (dfuIn s))
        (?g\<lparr>outPktSizeIdx := outPktSizeIdx s + len\<rparr>)"
    using dfu_wr_good_magic [OF g(1) assms(2) g(2), of E rl b p] by (simp add: g)
  have ok: "fst (dfu_wr E rl b p len s) = DFU_STATUS_OK"
    by (cases "fst (dfu_wr E rl b p len s)") simp
  have first: "snd (snd (dfu_wr E rl b p len s)) =
           with_magic (hdr_magic (dfuIn s))
             (snd (snd (dfu_wr E rl b p len
                (usbDebug (sprintf E version_warning []) (with_magic DFUPROG_VALIDVAL s)))))"
    by (subst dfu_wr_warning_first [OF assms]) simp
  from ok sv first show ?thesis
    unfolding bad good by simp
qed

theorem magic_mismatch_witness:
  "currStatus mismatch_state \<noteq> DFU_OPSTS_PROG_STREAM \<and> (16 :: u32) \<noteq> 0 \<and>
   hdr_magic (dfuIn mismatch_state) \<noteq> DFUPROG_VALIDVAL \<and>
   fst (dfu_wr lpc1857 lpc1857_registry 0 0x10081000 16 mismatch_state) = DFU_STATUS_OK \<and>
   session_view (snd (snd (dfu_wr lpc1857 lpc1857_registry 0 0x10081000 16 mismatch_state))) =
     session_view (snd (snd (dfu_wr lpc1857 lpc1857_registry 0 0x10081000 16
        (with_magic DFUPROG_VALIDVAL mismatch_state)))) \<and>
   currStatus (snd (snd (dfu_wr lpc1857 lpc1857_registry 0 0x10081000 16 mismatch_state)))
     = DFU_OPSTS_ERASE_ST \<and>
   usbStrIn (snd (snd (dfu_wr lpc1857 lpc1857_registry 0 0x10081000 16 mismatch_state))) = 62"
proof -
  have h: "currStatus mismatch_state \<noteq> DFU_OPSTS_PROG_STREAM" "(16 :: u32) \<noteq> 0"
    "hdr_magic (dfuIn mismatch_state) \<noteq> DFUPROG_VALIDVAL"
    by (simp_all add: mismatch_state_def foreign_erase_hdr_def boot_state_def DFUPROG_VALIDVAL_def)
  have e: "currStatus (snd (snd (dfu_wr lpc1857 lpc1857_registry 0 0x10081000 16 mismatch_state)))
       = DFU_OPSTS_ERASE_ST \<and>
     usbStrIn (snd (snd (dfu_wr lpc1857 lpc1857_registry 0 0x10081000 16 mismatch_state))) = 62"
    by (simp add: dfu_wr_def dfu_wr_command_def dfu_wr_switch_def checkMagicHeader_def Let_def
      mismatch_state_def foreign_erase_hdr_def boot_state_def DFUPROG_VALIDVAL_def DFU_HOSTCMD_ERASE_REGION_def
      DFU_HOSTCMD_PROGRAM_def DFU_HOSTCMD_SETDEBUG_def DFU_HOSTCMD_PROGOTP_def
      DFU_HOSTCMD_READOTP_def DFU_HOSTCMD_STARTNEWSESS_def DFU_HOSTCMD_ERASE_ALL_def
      usbDFUEraseRegion_def DFUDEBUG_def usbDebug_def version_warning_def lpc1857_simps
      USBMSGBUFFSIZE_def)
  from h e magic_mismatch [OF h, of lpc1857 lpc1857_registry 0 "0x10081000"] show ?thesis
    by blast
qed

section \<open>Erasing a flash range that starts inside a sector\<close>

lemma lookup_flash_sector:
  "algo_root_isRegionValid E lpc1857_registry 0x1A000200 0x1E00 s = (0, s)"
  "algo_root_isRegionValid E lpc1857_regions 0x1A000200 0 s = (0, s)"
  by (simp_all add: algo_root_isRegionValid_def Let_def isRegionValid_loop_step region_match_def
      lpc1857_registry_def lpc1857_regions_def)

lemma progaddrvalid_inside_sector:
  "progalgo_iflash_progaddrvalid E lpc1857_regions 0x1A000200 0x1E00 s = (0x1E00, s)"
  by (simp add: progalgo_iflash_progaddrvalid_def progalgo_iflash_findbank_def
      lookup_flash_sector findbank_loop_eval PAGE_SIZE_def)

lemma secstart_inside_sector: "find_secstart_loop 0x1A000000 0x1A000200 0 0 = (0, 0, 0)"
  by (simp add: find_secstart_loop.simps sectorinfo_def regstart_def regend_def)

lemma secend_sector_end: "find_secend_loop 0x1A000000 0x1A001FFF 0 0 = (0, 0, 1)"
  by (simp add: find_secend_loop.simps sectorinfo_def regstart_def regend_def)

lemma sectorrange_inside_sector:
  "progalgo_iflash_find_sectorrange E lpc1857_regions 0x1A000200 0x1E00 s =
     Some (0x1E00, 0, 0, 0, 1, s)"
  by (simp add: progalgo_iflash_find_sectorrange_def progalgo_iflash_findbank_def
      lookup_flash_sector findbank_loop_eval pregions_def secstart_inside_sector
      secend_sector_end)

lemma iap_entry_lpc1857:
  "iap_entry lpc1857 command s = (0, s\<lparr>iap_calls := iap_calls s @ [command]\<rparr>)"
  by (simp add: iap_entry_def lpc1857_simps)

lemma intflash_erase_inside_sector:
  "(case progalgo_intflash_erase_region lpc1857 lpc1857_regions 0x1A000200 0x1E00 s of
      None \<Rightarrow> False
    | Some (r, s') \<Rightarrow>
        r = 0x1E00 \<and> currStatus s' = currStatus s \<and>
        iap_calls s' = iap_calls s @ [[50, 0, 0, 0], [52, 0, 0, 180000, 0], [53, 0, 0, 0]])"
  by (simp add: progalgo_intflash_erase_region_def progaddrvalid_inside_sector
      sectorrange_inside_sector progalgo_iflash_prepwrite_def progalgo_iflash_erasesectors_def
      iap_entry_lpc1857 lpc1857_simps IAP_PREP_SECS_def IAP_ERASE_SECS_def
      IAP_BLANK_CHECK_SECS_def CPUCLOCKFRQINKHZ_def Let_def)

text \<open>
  C5. An \<open>ERASE_REGION\<close> whose address is not on the sector grid is meant to end in
  \<open>DFU_OPSTS_ERRER\<close> without any erase. \<open>progalgo_iflash_find_sectorrange\<close> sets the
  \<open>aligned\<close> flag for the start address and then overwrites it with the result for the
  end address. So for the range of \<open>0x1E00\<close> bytes from \<open>0x1A000200\<close>, which starts
  inside sector 0 of bank A and ends with it, the flag is 1: on the device above (the
  ROM reporting success) the pass through \<open>DFU_OPSTS_ERASE_ST\<close> ends in
  \<open>DFU_OPSTS_ERASE\<close>, and the ROM has been asked to prepare, erase (command 52) and
  blank-check sector 0, which holds the 512 bytes below the requested range too.
\<close>

theorem misaligned_erase_runs:
  "regstart 0x1A000000 0 < 0x1A000200 \<and> 0x1A000200 \<le> regend 0x1A000000 0 \<and>
   fst (algo_root_isRegionValid lpc1857 lpc1857_registry 0x1A000200 0x1E00 s) = 0 \<and>
   (case dfu_util_process_step lpc1857 lpc1857_registry
           (s\<lparr>currStatus := DFU_OPSTS_ERASE_ST, currCmdAddr := 0x1A000200,
              currCmdSize := 0x1E00\<rparr>) of
      Running s' \<Rightarrow>
        currStatus s' = DFU_OPSTS_ERASE \<and>
        iap_calls s' = iap_calls s @ [[50, 0, 0, 0], [52, 0, 0, 180000, 0], [53, 0, 0, 0]]
    | _ \<Rightarrow> False)"
proof -
  let ?s0 = "s\<lparr>currCmdAddr := 0x1A000200, currCmdSize := 0x1E00, currStatus := DFU_OPSTS_ERASE\<rparr>"
  obtain r s' where e:
    "progalgo_intflash_erase_region lpc1857 lpc1857_regions 0x1A000200 0x1E00 ?s0 = Some (r, s')"
    and r: "r = 0x1E00" and s': "currStatus s' = DFU_OPSTS_ERASE"
    "iap_calls s' = iap_calls s @ [[50, 0, 0, 0], [52, 0, 0, 180000, 0], [53, 0, 0, 0]]"
    using intflash_erase_inside_sector [of ?s0]
    by (cases "progalgo_intflash_erase_region lpc1857 lpc1857_regions 0x1A000200 0x1E00 ?s0") auto
  have "dfu_util_process_step lpc1857 lpc1857_registry
           (s\<lparr>currStatus := DFU_OPSTS_ERASE_ST, currCmdAddr := 0x1A000200,
              currCmdSize := 0x1E00\<rparr>) = Running s'"
    by (simp add: dfu_util_process_step_def lookup_flash_sector algo_root_erase_region_def
        lpc1857_registry_simps intflash_palgos_def e r)
  then show ?thesis
    by (simp add: s' lookup_flash_sector regstart_def regend_def sectorinfo_def)
qed

section \<open>Writing less than a program unit\<close>

text \<open>The padding loop fills the bytes from \<open>wsize\<close> up to \<open>limit\<close> of the buffer with
  \<open>0xFF\<close> and leaves every other byte as it is.\<close>

lemma succ_le_iff:
  fixes w l x :: u32
  assumes "w < l"
  shows "(w + 1 \<le> x) = (w < x)"
proof -
  have "unat w < unat l"
    using assms by (simp add: word_less_nat_alt)
  moreover have "unat l < 2 ^ 32"
    using unsigned_less [of l, where 'a = nat] by simp
  ultimately have "unat w + unat (1 :: u32) < 2 ^ LENGTH(32)"
    by simp
  then have "unat (w + 1) = unat w + 1"
    by (simp add: unat_add_lem [THEN iffD1])
  then show ?thesis
    by (auto simp: word_le_nat_alt word_less_nat_alt)
qed

lemma pad_loop_fills:
  "wsize \<le> limit \<Longrightarrow>
   pad_loop m fbuff wsize limit =
     ((\<lambda>a. if wsize \<le> a - fbuff \<and> a - fbuff < limit then 0xFF else m a), limit)"
proof (induction m fbuff wsize limit rule: pad_loop.induct)
  case (1 m fbuff wsize limit)
  show ?case
  proof (cases "wsize < limit")
    case True
    then have le: "wsize + 1 \<le> limit"
      by (rule inc_le)
    have "(\<lambda>a. if wsize + 1 \<le> a - fbuff \<and> a - fbuff < limit then 0xFF
               else (m(fbuff + wsize := 0xFF)) a)
        = (\<lambda>a. if wsize \<le> a - fbuff \<and> a - fbuff < limit then 0xFF else m a)"
    proof (rule ext)
      fix a
      show "(if wsize + 1 \<le> a - fbuff \<and> a - fbuff < limit then 0xFF
             else (m(fbuff + wsize := 0xFF)) a)
          = (if wsize \<le> a - fbuff \<and> a - fbuff < limit then 0xFF else m a)"
      proof (cases "a = fbuff + wsize")
        case True
        then have "a - fbuff = wsize" by simp
        with \<open>wsize < limit\<close> True show ?thesis by simp
      next
        case False
        then have "a - fbuff \<noteq> wsize" by auto
        then have "(wsize < a - fbuff) = (wsize \<le> a - fbuff)" by auto
        with False show ?thesis
          by (simp add: succ_le_iff [OF \<open>wsize < limit\<close>])
      qed
    qed
    then have closed: "((\<lambda>a. if wsize + 1 \<le> a - fbuff \<and> a - fbuff < limit then 0xFF
               else (m(fbuff + wsize := 0xFF)) a), limit)
        = ((\<lambda>a. if wsize \<le> a - fbuff \<and> a - fbuff < limit then 0xFF else m a), limit)"
      by (simp only:)
    have "pad_loop m fbuff wsize limit = pad_loop (m(fbuff + wsize := 0xFF)) fbuff (wsize + 1) limit"
      using True by (subst pad_loop.simps) (simp only: if_True)
    also note "1.IH" [OF True le]
    also note closed
    finally show ?thesis .
  next
    case False
    with "1.prems" have eq: "wsize = limit" by simp
    have "(\<lambda>a. if limit \<le> a - fbuff \<and> a - fbuff < limit then 0xFF else m a) = m"
      by (rule ext) (auto simp: not_less [symmetric])
    with eq show ?thesis
      by (subst pad_loop.simps) simp
  qed
qed


lemma lookup_eeprom_start:
  "algo_root_isRegionValid E lpc1857_regions 0x20040000 2 s = (1, s)"
  by (simp add: algo_root_isRegionValid_def Let_def isRegionValid_loop_step region_match_def
      lpc1857_regions_def)

lemma store32_outside: "4 \<le> unat (a - p) \<Longrightarrow> store32 m p w a = m a"
proof -
  assume far: "4 \<le> unat (a - p)"
  have "a \<noteq> p" "a \<noteq> p + 1" "a \<noteq> p + 2" "a \<noteq> p + 3"
    using far by auto
  then show ?thesis
    by (simp add: store32_def)
qed

lemma eeprom_write_loop_outside:
  "4 * n \<le> unat (a - (pEepromMem + 4 * i)) \<Longrightarrow>
   eeprom_write_loop m pEepromMem fbuff i n a = m a"
proof (induction n arbitrary: m i)
  case 0
  then show ?case by simp
next
  case (Suc n)
  have four: "4 \<le> unat (a - (pEepromMem + 4 * i))"
    using Suc.prems by simp
  have next_word: "a - (pEepromMem + 4 * (i + 1)) = a - (pEepromMem + 4 * i) - 4"
    by (simp add: algebra_simps)
  have no_wrap: "unat (a - (pEepromMem + 4 * i) - 4) = unat (a - (pEepromMem + 4 * i)) - 4"
    using four by (simp add: unat_sub word_le_nat_alt)
  have "4 * n \<le> unat (a - (pEepromMem + 4 * (i + 1)))"
    unfolding next_word no_wrap using Suc.prems by simp
  from Suc.IH [OF this] show ?case
    by (simp add: store32_outside [OF four])
qed


lemma eeprom_page_after_write:
  assumes src: "m0 0x10083000 = 0x11" "m0 0x10083001 = 0x22" "m0 0x10083002 = 0xFF"
  shows "eeprom_write_loop m0 0x20040000 0x10083000 0 32 0x20040000 = 0x11"
    and "eeprom_write_loop m0 0x20040000 0x10083000 0 32 0x20040001 = 0"
    and "eeprom_write_loop m0 0x20040000 0x10083000 0 32 0x20040002 = 0"
    and "eeprom_write_loop m0 0x20040000 0x10083000 0 32 0x20040004 = 0x22"
    and "eeprom_write_loop m0 0x20040000 0x10083000 0 32 0x20040008 = 0xFF"
proof -
  define m1 where "m1 = store32 m0 0x20040000 (ucast (m0 0x10083000))"
  define m2 where "m2 = store32 m1 0x20040004 (ucast (m1 0x10083001))"
  define m3 where "m3 = store32 m2 0x20040008 (ucast (m2 0x10083002))"
  have three: "(32 :: nat) = Suc (Suc (Suc 29))"
    by simp
  have step1: "eeprom_write_loop m0 0x20040000 0x10083000 0 (Suc n)
      = eeprom_write_loop m1 0x20040000 0x10083000 1 n" for n
    by (simp add: m1_def)
  have step2: "eeprom_write_loop m1 0x20040000 0x10083000 1 (Suc n)
      = eeprom_write_loop m2 0x20040000 0x10083000 2 n" for n
    by (simp add: m2_def)
  have step3: "eeprom_write_loop m2 0x20040000 0x10083000 2 (Suc n)
      = eeprom_write_loop m3 0x20040000 0x10083000 3 n" for n
    by (simp add: m3_def)
  have peel: "eeprom_write_loop m0 0x20040000 0x10083000 0 32
      = eeprom_write_loop m3 0x20040000 0x10083000 3 29"
    by (simp only: three step1 step2 step3)
  have src1: "m1 0x10083001 = 0x22" "m1 0x10083002 = 0xFF"
    by (simp_all add: m1_def store32_def src)
  have src2: "m2 0x10083002 = 0xFF"
    by (simp add: m2_def store32_def src1)
  have w0: "m3 0x20040000 = 0x11" "m3 0x20040001 = 0" "m3 0x20040002 = 0"
    by (simp_all add: m3_def m2_def m1_def store32_def src)
  have w1: "m3 0x20040004 = 0x22"
    by (simp add: m3_def m2_def store32_def src1)
  have w2: "m3 0x20040008 = 0xFF"
    by (simp add: m3_def store32_def src2)
  show "eeprom_write_loop m0 0x20040000 0x10083000 0 32 0x20040000 = 0x11"
    unfolding peel by (simp add: eeprom_write_loop_outside w0)
  show "eeprom_write_loop m0 0x20040000 0x10083000 0 32 0x20040001 = 0"
    unfolding peel by (simp add: eeprom_write_loop_outside w0)
  show "eeprom_write_loop m0 0x20040000 0x10083000 0 32 0x20040002 = 0"
    unfolding peel by (simp add: eeprom_write_loop_outside w0)
  show "eeprom_write_loop m0 0x20040000 0x10083000 0 32 0x20040004 = 0x22"
    unfolding peel by (simp add: eeprom_write_loop_outside w1)
  show "eeprom_write_loop m0 0x20040000 0x10083000 0 32 0x20040008 = 0xFF"
    unfolding peel by (simp add: eeprom_write_loop_outside w2)
qed

lemma lpc1857_regions_simps:
  "region_addr (lpc1857_regions ! Suc 0) = 0x20040000"
  "region_addr (lpc1857_regions ! 0) = 0x1A000000"
  by (simp_all add: lpc1857_regions_def)

lemma inteeprom_write_two_bytes:
  "\<exists>s1. progalgo_inteeprom_write lpc1857 lpc1857_regions 0x10083000 0x20040000 2 s = Some (2, s1) \<and>
     mem s1 = eeprom_write_loop
       (\<lambda>a. if 2 \<le> a - 0x10083000 \<and> a - 0x10083000 < 128 then 0xFF else mem s a)
       0x20040000 0x10083000 0 32"
  by (simp add: progalgo_inteeprom_write_def lookup_eeprom_start lpc1857_simps pad_loop_fills
      lpc1857_regions_simps Let_def cong del: if_weak_cong)

lemma inteeprom_read_mem:
  "\<exists>s2. progalgo_inteeprom_read E buff start sz s = Some (sz, s2) \<and>
     mem s2 = memmove (mem s) buff start sz"
  by (simp add: progalgo_inteeprom_read_def Let_def)

text \<open>The flash driver returns 0 or the requested size, and a write that returned the
  size ended with the compare command of the boot ROM.\<close>

lemma intflash_write_returns:
  "progalgo_intflash_write E rg buff start sz s = Some (r, s') \<Longrightarrow> r = 0 \<or> r = sz"
  by (auto simp: progalgo_intflash_write_def Let_def split_def
      split: if_splits option.splits)

lemma intflash_write_verified:
  "progalgo_intflash_write E rg buff start sz s = Some (sz, s') \<Longrightarrow> sz \<noteq> 0 \<Longrightarrow>
   last (iap_calls s') = [IAP_COMPARE, start, buff, PAGE_SIZE]"
  by (auto simp: progalgo_intflash_write_def Let_def split_def iap_entry_def
      progalgo_iflash_prepwrite_def
      split: if_splits option.splits)

text \<open>
  C8. A short write is meant to read back as the bytes written, followed by \<open>0xFF\<close>.
  The flash driver pads the buffer, programs the 512-byte page, has the ROM compare it
  and returns the requested size. The EEPROM driver pads the buffer too, but its copy
  loop assigns the byte \<open>fbuff[i]\<close> to the 32-bit word \<open>pEepromMem[i]\<close>: each of the
  first 32 bytes of the buffer lands in a word of its own. Writing the two bytes
  \<open>0x11 0x22\<close> to the start of the EEPROM on the device above returns 2 and leaves
  \<open>0x11 0x00 0x00 0x00 0x22\<close> there; reading two bytes back gives \<open>0x11 0x00\<close>, and
  the byte after them reads \<open>0x00\<close>, not \<open>0xFF\<close>.
\<close>

theorem eeprom_write_spreads_bytes:
  "(case progalgo_inteeprom_write lpc1857 lpc1857_regions 0x10083000 0x20040000 2
          (s\<lparr>mem := (mem s)(0x10083000 := 0x11, 0x10083001 := 0x22)\<rparr>) of
      None \<Rightarrow> False
    | Some (r, s1) \<Rightarrow>
        r = 2 \<and> mem s1 0x20040000 = 0x11 \<and> mem s1 0x20040001 = 0 \<and> mem s1 0x20040002 = 0 \<and>
        mem s1 0x20040004 = 0x22 \<and>
        (case progalgo_inteeprom_read lpc1857 0x10083000 0x20040000 2 s1 of
           None \<Rightarrow> False
         | Some (r', s2) \<Rightarrow> r' = 2 \<and> mem s2 0x10083000 = 0x11 \<and> mem s2 0x10083001 = 0))"
proof -
  let ?s = "s\<lparr>mem := (mem s)(0x10083000 := 0x11, 0x10083001 := 0x22)\<rparr>"
  let ?m0 = "\<lambda>a. if 2 \<le> a - 0x10083000 \<and> a - 0x10083000 < 128 then 0xFF else mem ?s a"
  obtain s1 where w: "progalgo_inteeprom_write lpc1857 lpc1857_regions 0x10083000 0x20040000 2 ?s
      = Some (2, s1)"
    and m1: "mem s1 = eeprom_write_loop ?m0 0x20040000 0x10083000 0 32"
    using inteeprom_write_two_bytes [of ?s] by blast
  have src: "?m0 0x10083000 = 0x11" "?m0 0x10083001 = 0x22" "?m0 0x10083002 = 0xFF"
    by (simp_all add: word_le_nat_alt)
  note page = eeprom_page_after_write [of ?m0, OF src]
  obtain s2 where r: "progalgo_inteeprom_read lpc1857 0x10083000 0x20040000 2 s1 = Some (2, s2)"
    and m2: "mem s2 = memmove (mem s1) 0x10083000 0x20040000 2"
    using inteeprom_read_mem [of lpc1857 "0x10083000" "0x20040000" 2 s1] by blast
  have written: "mem s1 0x20040000 = 0x11" "mem s1 0x20040001 = 0" "mem s1 0x20040002 = 0"
    "mem s1 0x20040004 = 0x22"
    unfolding m1 by (rule page)+
  have one: "(1 :: u32) < 2"
    by (simp add: word_less_nat_alt)
  have readback: "mem s2 0x10083000 = 0x11" "mem s2 0x10083001 = 0"
    unfolding m2 by (simp_all add: memmove_def written one)
  show ?thesis
    by (simp add: w r written readback)
qed

end
